theory Spec2Isabelle
  imports Main "HOL-Library.Multiset"
begin

section \<open>Data model\<close>

text \<open>
  The program is \<^verbatim>\<open>warmup_tool/main.py\<close>. Python strings are modelled as HOL strings,
  the console as a pair of line lists (what is still to be typed, what has been printed),
  and every exception the code can raise as a value of \<open>error\<close>.
\<close>

datatype error = KeyError | IndexError | EOFError

text \<open>
  A cell of the data frame read by \<^verbatim>\<open>pd.read_csv\<close>: a text, or the missing value
  \<^verbatim>\<open>NaN\<close> that pandas stores for an empty field (\<open>None\<close> here). The columns of
  the assessment file hold text; a column of numbers is outside the model.
\<close>

type_synonym cell = "string option"

text \<open>
  One row of the assessment table, with the eight columns the code reads. A file that
  lacks one of them makes the code raise \<^verbatim>\<open>KeyError\<close> at the first row it reads; such
  a file is outside the model.
\<close>

record row =
  Area :: cell
  Test :: cell
  Test_Description :: cell
  Fail_Criteria :: cell
  Solution_1 :: cell
  Solution_2 :: cell
  Solution_3 :: cell
  Solution_4 :: cell

text \<open>
  The data frame is the list of its rows. \<^verbatim>\<open>read_csv\<close> gives it the default index
  \<open>0, 1, 2, \<dots>\<close>, so the label that \<^verbatim>\<open>iterrows\<close> yields for a row is its position.
\<close>

type_synonym dataframe = "row list"

record console =
  stdin :: "string list"
  stdout :: "string list"

section \<open>The fixed tables\<close>

definition LIFT_SPECIFIC_TESTS :: "string \<rightharpoonup> string list" where
  "LIFT_SPECIFIC_TESTS = map_of
     [(''squat'',
        [''Ankle Mobility'',
         ''Hip Flexion'',
         ''Hip Internal Rotation'',
         ''Hip External Rotation'',
         ''Thoracic Extension'',
         ''Shoulder Internal Rotation'',
         ''Lat Flexibility'',
         ''Bracing Ability'',
         ''Anterior Core Control'',
         ''Hip Hinge Pattern'',
         ''Squat Pattern'']),
      (''bench'',
        [''Shoulder External Rotation'',
         ''Shoulder Internal Rotation'',
         ''Thoracic Extension'',
         ''Lat Flexibility'',
         ''Wrist Mobility'',
         ''Bracing Ability'',
         ''Bench Setup'']),
      (''deadlift'',
        [''Hip Flexion'',
         ''Hamstring Flexibility'',
         ''Lat Flexibility'',
         ''Wrist Mobility'',
         ''Bracing Ability'',
         ''Anterior Core Control'',
         ''Hip Hinge Pattern'',
         ''Deadlift Setup''])]"

definition FUNDAMENTAL_TESTS :: "string list" where
  "FUNDAMENTAL_TESTS =
     [''General Pain Assessment'',
      ''Muscle Soreness'',
      ''CNS Fatigue'']"

section \<open>Python built-ins used by the code\<close>

text \<open>
  \<^verbatim>\<open>str.lower\<close>. The strings of the model are ASCII texts, on which it turns
  \<open>A\<close>--\<open>Z\<close> into \<open>a\<close>--\<open>z\<close> and leaves every other character as it is.
\<close>

definition lower_char :: "char \<Rightarrow> char" where
  "lower_char c =
     (case map_of (zip ''ABCDEFGHIJKLMNOPQRSTUVWXYZ'' ''abcdefghijklmnopqrstuvwxyz'') c of
        None \<Rightarrow> c
      | Some l \<Rightarrow> l)"

definition lower :: "string \<Rightarrow> string" where
  "lower s = map lower_char s"

text \<open>\<^verbatim>\<open>sep.join(xs)\<close>.\<close>

fun join :: "string \<Rightarrow> string list \<Rightarrow> string" where
  "join sep [] = []"
| "join sep [x] = x"
| "join sep (x # y # ys) = x @ sep @ join sep (y # ys)"

text \<open>The decimal numeral that an f-string prints for a non-negative integer.\<close>

definition digit :: "nat \<Rightarrow> char" where
  "digit d = ''0123456789'' ! d"

fun str_of_nat :: "nat \<Rightarrow> string" where
  "str_of_nat n = (if n < 10 then [digit n] else str_of_nat (n div 10) @ [digit (n mod 10)])"

text \<open>What an f-string prints for a cell: the text, or \<^verbatim>\<open>nan\<close> for the missing value.\<close>

fun str_cell :: "cell \<Rightarrow> string" where
  "str_cell None = ''nan''"
| "str_cell (Some s) = s"

text \<open>\<^verbatim>\<open>pd.notna\<close>.\<close>

fun notna :: "cell \<Rightarrow> bool" where
  "notna None = False"
| "notna (Some s) = True"

text \<open>
  \<^verbatim>\<open>cell in xs\<close> for a list or set of strings: the missing value equals no string.
\<close>

fun cell_in :: "cell \<Rightarrow> string set \<Rightarrow> bool" where
  "cell_in None S = False"
| "cell_in (Some s) S = (s \<in> S)"

text \<open>\<^verbatim>\<open>print(s)\<close>: one more entry of the output, the argument as it is.\<close>

definition print_line :: "string \<Rightarrow> console \<Rightarrow> console" where
  "print_line s c = c\<lparr>stdout := stdout c @ [s]\<rparr>"

text \<open>
  \<^verbatim>\<open>input(prompt)\<close>: writes the prompt, then takes the next line typed;
  at the end of the input Python raises \<^verbatim>\<open>EOFError\<close>.
\<close>

definition read_input :: "string \<Rightarrow> console \<Rightarrow> error + (string \<times> console)" where
  "read_input prompt c =
     (case stdin c of
        [] \<Rightarrow> Inl EOFError
      | l # ls \<Rightarrow> Inr (l, c\<lparr>stdin := ls, stdout := stdout c @ [prompt]\<rparr>))"

text \<open>
  \<^verbatim>\<open>xs[i]\<close> and \<^verbatim>\<open>df.iloc[i]\<close> for a non-negative position: out of range raises
  \<^verbatim>\<open>IndexError\<close>.
\<close>

definition getitem :: "'a list \<Rightarrow> nat \<Rightarrow> error + 'a" where
  "getitem xs i = (if i < length xs then Inr (xs ! i) else Inl IndexError)"

definition iloc :: "dataframe \<Rightarrow> nat \<Rightarrow> error + row" where
  "iloc df idx = getitem df idx"

text \<open>
  \<^verbatim>\<open>row[name]\<close> for a column name computed at run time; a name that is no column
  raises \<^verbatim>\<open>KeyError\<close>.
\<close>

definition row_get :: "row \<Rightarrow> string \<Rightarrow> error + cell" where
  "row_get r name =
     (if name = ''Area'' then Inr (Area r)
      else if name = ''Test'' then Inr (Test r)
      else if name = ''Test_Description'' then Inr (Test_Description r)
      else if name = ''Fail_Criteria'' then Inr (Fail_Criteria r)
      else if name = ''Solution_1'' then Inr (Solution_1 r)
      else if name = ''Solution_2'' then Inr (Solution_2 r)
      else if name = ''Solution_3'' then Inr (Solution_3 r)
      else if name = ''Solution_4'' then Inr (Solution_4 r)
      else Inl KeyError)"

text \<open>
  \<^verbatim>\<open>sorted(xs, key=key, reverse=True)\<close>: a stable sort in which every comparison is
  reversed, so the keys come out in descending order and elements with equal keys keep
  the order they had in \<open>xs\<close>. A stable sort has one result, so the algorithm does
  not matter; this one is insertion sort (\<open>sorted_reverse_by_library_sort\<close> below
  compares it with the sort of the library).
\<close>

fun insort_reverse :: "('a \<Rightarrow> nat) \<Rightarrow> 'a \<Rightarrow> 'a list \<Rightarrow> 'a list" where
  "insort_reverse key x [] = [x]"
| "insort_reverse key x (y # ys) =
     (if key y \<le> key x then x # y # ys else y # insort_reverse key x ys)"

definition sorted_reverse :: "('a \<Rightarrow> nat) \<Rightarrow> 'a list \<Rightarrow> 'a list" where
  "sorted_reverse key xs = foldr (insort_reverse key) xs []"

section \<open>load\_assessment\_data\<close>

text \<open>
  The outcome of \<^verbatim>\<open>pd.read_csv\<close> is an input of the model: the data frame, or the
  message of the exception it raised. Every exception is caught, reported and turned
  into \<^verbatim>\<open>None\<close>.
\<close>

definition load_assessment_data ::
  "string + dataframe \<Rightarrow> console \<Rightarrow> dataframe option \<times> console" where
  "load_assessment_data read_csv c =
     (case read_csv of
        Inr df \<Rightarrow> (Some df, c)
      | Inl e \<Rightarrow> (None, print_line (''Error loading CSV file: '' @ e) c))"

section \<open>select\_lifts\<close>

definition select_lifts :: "console \<Rightarrow> error + (string list \<times> console)" where
  "select_lifts c0 =
     (let c1 = print_line ''\<newline>=== LIFT SELECTION ===\<newline>'' c0;
          c2 = print_line ''Which lift(s) will you be performing today?'' c1
      in case read_input ''Squat? (y/n): '' c2 of
           Inl e \<Rightarrow> Inl e
         | Inr (s, c3) \<Rightarrow>
        (case read_input ''Bench? (y/n): '' c3 of
           Inl e \<Rightarrow> Inl e
         | Inr (b, c4) \<Rightarrow>
        (case read_input ''Deadlift? (y/n): '' c4 of
           Inl e \<Rightarrow> Inl e
         | Inr (d, c5) \<Rightarrow>
             Inr ((if lower s = ''y'' then [''squat''] else [])
                  @ (if lower b = ''y'' then [''bench''] else [])
                  @ (if lower d = ''y'' then [''deadlift''] else []), c5))))"

section \<open>get\_relevant\_tests\<close>

text \<open>
  The loop over the selected lifts, on the set built so far. A lift that is no key of
  \<open>LIFT_SPECIFIC_TESTS\<close> raises \<^verbatim>\<open>KeyError\<close>.
\<close>

fun add_lift_tests :: "string set \<Rightarrow> string list \<Rightarrow> error + string set" where
  "add_lift_tests relevant_areas [] = Inr relevant_areas"
| "add_lift_tests relevant_areas (lift # lifts) =
     (case LIFT_SPECIFIC_TESTS lift of
        None \<Rightarrow> Inl KeyError
      | Some tests \<Rightarrow> add_lift_tests (fold insert tests relevant_areas) lifts)"

definition get_relevant_tests :: "string list \<Rightarrow> error + string set" where
  "get_relevant_tests lifts = add_lift_tests (set FUNDAMENTAL_TESTS) lifts"

section \<open>generate\_warmup\_plan\<close>

definition print_lines :: "string list \<Rightarrow> console \<Rightarrow> console" where
  "print_lines ls c = fold print_line ls c"

text \<open>
  The body of the loop that prints the standard progression of one lift. The code has
  this loop twice, as step 2 of the all-passed plan and as step 3 of the customized one;
  \<open>step\<close> is that number.
\<close>

definition progression_lines :: "string \<Rightarrow> string \<Rightarrow> string list" where
  "progression_lines step lift =
     [''\<newline>'' @ step @ ''. Standard '' @ lift @ '' progression:'',
      ''   - Empty bar: 10-15 reps'',
      ''   - 40% of working weight: 8-10 reps'',
      ''   - 60% of working weight: 5-8 reps'',
      ''   - 75% of working weight: 3-5 reps'',
      ''   - 85-90% of working weight: 1-2 reps (optional)'']"

definition print_progressions :: "string \<Rightarrow> string list \<Rightarrow> console \<Rightarrow> console" where
  "print_progressions step selected_lifts c =
     fold (\<lambda>lift. print_lines (progression_lines step lift)) selected_lifts c"

text \<open>
  \<open>area_counts\<close> is a Python dict, which keeps its keys in the order of their first
  insertion: an association list. One pass of the counting loop's body follows. The dict
  finds an area among its keys when it equals one of them. The missing value equals
  nothing, itself included, and pandas hands it out as a new object at each access to a
  column of floats (which a column without any text is), so a missing Area is not found
  and gets a key of its own. A frame that keeps one shared object for its missing values
  would have the dict find that object again; the theorems on the plan do not rest on
  how the missing Areas are keyed.
\<close>

fun count_area :: "(cell \<times> nat) list \<Rightarrow> cell \<Rightarrow> (cell \<times> nat) list" where
  "count_area [] area = [(area, 1)]"
| "count_area ((k, n) # kvs) area =
     (if k = area \<and> notna area then (k, n + 1) # kvs else (k, n) # count_area kvs area)"

fun count_areas ::
  "dataframe \<Rightarrow> nat list \<Rightarrow> (cell \<times> nat) list \<Rightarrow> error + (cell \<times> nat) list" where
  "count_areas assessment_data [] area_counts = Inr area_counts"
| "count_areas assessment_data (idx # idxs) area_counts =
     (case iloc assessment_data idx of
        Inl e \<Rightarrow> Inl e
      | Inr r \<Rightarrow> count_areas assessment_data idxs (count_area area_counts (Area r)))"

text \<open>The loop \<^verbatim>\<open>for j in range(1, 4)\<close> over the solutions of one failed row.\<close>

fun print_solutions :: "row \<Rightarrow> nat list \<Rightarrow> console \<Rightarrow> error + console" where
  "print_solutions r [] c = Inr c"
| "print_solutions r (j # js) c =
     (case row_get r (''Solution_'' @ str_of_nat j) of
        Inl e \<Rightarrow> Inl e
      | Inr solution \<Rightarrow>
          print_solutions r js
            (print_line (''  '' @ str_of_nat j @ ''. '' @ str_cell solution) c))"

text \<open>The loop \<^verbatim>\<open>for i in range(num_exercises)\<close>.\<close>

fun print_exercises ::
  "dataframe \<Rightarrow> nat list \<Rightarrow> nat list \<Rightarrow> console \<Rightarrow> error + console" where
  "print_exercises assessment_data failed_indices [] c = Inr c"
| "print_exercises assessment_data failed_indices (i # is) c =
     (case getitem failed_indices i of
        Inl e \<Rightarrow> Inl e
      | Inr idx \<Rightarrow>
     (case iloc assessment_data idx of
        Inl e \<Rightarrow> Inl e
      | Inr r \<Rightarrow>
     (case print_solutions r [1..<4]
             (print_line (''\<newline>-- '' @ str_cell (Area r) @ '': '' @ str_cell (Test r) @ '' --'') c) of
        Inl e \<Rightarrow> Inl e
      | Inr c' \<Rightarrow> print_exercises assessment_data failed_indices is c')))"

text \<open>
  \<open>lift_specific_tips\<close> is a dict from the selected lifts to their lists of tips.
  The inner loop \<^verbatim>\<open>for lift in selected_lifts\<close> that attributes one row's advice:
\<close>

fun attribute_tip ::
  "cell \<Rightarrow> cell \<Rightarrow> string list \<Rightarrow> (string \<rightharpoonup> string list) \<Rightarrow> error + (string \<rightharpoonup> string list)" where
  "attribute_tip area advice [] tips = Inr tips"
| "attribute_tip area advice (lift # lifts) tips =
     (case LIFT_SPECIFIC_TESTS lift of
        None \<Rightarrow> Inl KeyError
      | Some tests \<Rightarrow>
          if cell_in area (set tests) then
            (case tips lift of
               None \<Rightarrow> Inl KeyError
             | Some ts \<Rightarrow>
                 attribute_tip area advice lifts
                   (tips(lift \<mapsto> ts @ [''- '' @ str_cell area @ '': '' @ str_cell advice])))
          else attribute_tip area advice lifts tips)"

text \<open>The loop \<^verbatim>\<open>for idx in failed_indices\<close> that collects the tips.\<close>

fun collect_tips ::
  "dataframe \<Rightarrow> nat list \<Rightarrow> string list \<Rightarrow> (string \<rightharpoonup> string list) \<Rightarrow> error + (string \<rightharpoonup> string list)" where
  "collect_tips assessment_data [] selected_lifts tips = Inr tips"
| "collect_tips assessment_data (idx # idxs) selected_lifts tips =
     (case iloc assessment_data idx of
        Inl e \<Rightarrow> Inl e
      | Inr r \<Rightarrow>
          if notna (Solution_4 r) then
            (case attribute_tip (Area r) (Solution_4 r) selected_lifts tips of
               Inl e \<Rightarrow> Inl e
             | Inr tips' \<Rightarrow> collect_tips assessment_data idxs selected_lifts tips')
          else collect_tips assessment_data idxs selected_lifts tips)"

text \<open>The last loop, which prints the tips lift by lift.\<close>

fun print_tips :: "string list \<Rightarrow> (string \<rightharpoonup> string list) \<Rightarrow> console \<Rightarrow> error + console" where
  "print_tips [] tips c = Inr c"
| "print_tips (lift # lifts) tips c =
     (case tips lift of
        None \<Rightarrow> Inl KeyError
      | Some ts \<Rightarrow>
          print_tips lifts tips
            (if ts \<noteq> [] then print_lines ts (print_line (''\<newline>For '' @ lift @ '':'') c)
             else c))"

definition generate_warmup_plan ::
  "dataframe \<Rightarrow> nat list \<Rightarrow> string list \<Rightarrow> console \<Rightarrow> error + console" where
  "generate_warmup_plan assessment_data failed_indices selected_lifts c0 =
     (if failed_indices = [] then
        Inr (print_progressions ''2'' selected_lifts
          (print_lines
            [''\<newline>=== YOUR WARMUP PLAN ===\<newline>'',
             ''Congratulations! You passed all tests. Here's a basic warmup routine:'',
             ''1. 5-10 minutes of light cardio (rowing, cycling, or jumping jacks)''] c0))
      else
        let c1 = print_lines
              [''\<newline>=== YOUR CUSTOMIZED WARMUP PLAN ===\<newline>'',
               ''Based on your assessment, here's your personalized warmup routine:'',
               ''\<newline>1. Start with 5-10 minutes of light cardio (rowing, cycling, or jumping jacks)'',
               ''\<newline>2. Targeted mobility/stability work:''] c0
        in case count_areas assessment_data failed_indices [] of
             Inl e \<Rightarrow> Inl e
           | Inr area_counts \<Rightarrow>
       (let sorted_areas = sorted_reverse snd area_counts;
            c2 = print_line ''\<newline>Your top issues are in these areas (prioritized):'' c1;
            c3 = fold (\<lambda>(area, count). print_line (''- '' @ str_cell area)) sorted_areas c2;
            c4 = print_line ''\<newline>Perform these corrective exercises:'' c3;
            num_exercises = min 5 (length failed_indices)
        in case print_exercises assessment_data failed_indices [0..<num_exercises] c4 of
             Inl e \<Rightarrow> Inl e
           | Inr c5 \<Rightarrow>
       (let c6 = print_progressions ''3'' selected_lifts c5;
            c7 = print_line ''\<newline>=== IMPLEMENTATION NOTES ==='' c6;
            c8 = print_line
                   (''For your '' @ join '', '' selected_lifts @ '' today, consider these adjustments:'') c7;
            lift_specific_tips = fold (\<lambda>lift tips. tips(lift \<mapsto> [])) selected_lifts Map.empty
        in case collect_tips assessment_data failed_indices selected_lifts lift_specific_tips of
             Inl e \<Rightarrow> Inl e
           | Inr tips \<Rightarrow> print_tips selected_lifts tips c8)))"

section \<open>run\_assessment\<close>

text \<open>
  The prompt loop \<^verbatim>\<open>while True\<close> of one test. Each pass takes one line of the input,
  so the loop ends, with an answer or with \<^verbatim>\<open>EOFError\<close> when the input runs out.
\<close>

function ask_response :: "console \<Rightarrow> error + (string \<times> console)" where
  "ask_response c =
     (case read_input ''\<newline>Did you fail this test? (y/n/skip): '' c of
        Inl e \<Rightarrow> Inl e
      | Inr (r, c') \<Rightarrow>
          (let response = lower r in
           if response \<in> set [''y'', ''n'', ''skip''] then Inr (response, c')
           else ask_response
                  (print_line ''Invalid response. Please enter 'y', 'n', or 'skip'.'' c')))"
  by pat_completeness auto
termination
  by (relation "measure (\<lambda>c. length (stdin c))")
     (auto simp: read_input_def print_line_def split: list.splits)

text \<open>The loop over \<^verbatim>\<open>assessment_data.iterrows()\<close>, on the pairs of index and row.\<close>

fun assess_rows ::
  "string set \<Rightarrow> (nat \<times> row) list \<Rightarrow> nat list \<Rightarrow> console \<Rightarrow> error + (nat list \<times> console)" where
  "assess_rows relevant_areas [] failed_tests c = Inr (failed_tests, c)"
| "assess_rows relevant_areas ((index, r) # rows) failed_tests c =
     (let area = Area r in
      if \<not> cell_in area relevant_areas then assess_rows relevant_areas rows failed_tests c
      else
        let c1 = print_line (''\<newline>--- '' @ str_cell area @ '': '' @ str_cell (Test r) @ '' ---'') c;
            c2 = print_line (''Description: '' @ str_cell (Test_Description r)) c1;
            c3 = print_line (''You fail if: '' @ str_cell (Fail_Criteria r)) c2
        in case ask_response c3 of
             Inl e \<Rightarrow> Inl e
           | Inr (response, c4) \<Rightarrow>
               assess_rows relevant_areas rows
                 (if response = ''y'' then failed_tests @ [index] else failed_tests) c4)"

definition run_assessment :: "string + dataframe \<Rightarrow> console \<Rightarrow> error + console" where
  "run_assessment read_csv c0 =
     (case load_assessment_data read_csv c0 of
        (None, c1) \<Rightarrow> Inr c1
      | (Some assessment_data, c1) \<Rightarrow>
     (case select_lifts c1 of
        Inl e \<Rightarrow> Inl e
      | Inr (selected_lifts, c2) \<Rightarrow>
     (let c3 = print_line (''\<newline>Selected lifts: '' @ join '', '' selected_lifts) c2
      in case get_relevant_tests selected_lifts of
           Inl e \<Rightarrow> Inl e
         | Inr relevant_areas \<Rightarrow>
     (let c4 = print_line ''\<newline>=== POWERLIFTING MOBILITY ASSESSMENT ===\<newline>'' c3;
          c5 = print_line
                 (''You'll be assessed on '' @ str_of_nat (card relevant_areas)
                  @ '' relevant tests for your selected lift(s).'') c4;
          c6 = print_line
                 ''Answer 'y' if you failed the test, 'n' if you passed, or 'skip' to skip a test.\<newline>'' c5
      in case assess_rows relevant_areas (enumerate 0 assessment_data) [] c6 of
           Inl e \<Rightarrow> Inl e
         | Inr (failed_tests, c7) \<Rightarrow>
             generate_warmup_plan assessment_data failed_tests selected_lifts c7))))"

section \<open>Notions of the specification\<close>

text \<open>The areas that the table \<open>LIFT_SPECIFIC_TESTS\<close> lists for some lift of a selection.\<close>

definition lift_areas :: "string list \<Rightarrow> string set" where
  "lift_areas lifts =
     (\<Union>lift \<in> set lifts. case LIFT_SPECIFIC_TESTS lift of None \<Rightarrow> {} | Some tests \<Rightarrow> set tests)"

text \<open>The responses that end the prompt loop of a test.\<close>

definition valid_response :: "string \<Rightarrow> bool" where
  "valid_response r \<longleftrightarrow> lower r \<in> {''y'', ''n'', ''skip''}"

text \<open>What the user types for one test: the lines that are rejected, then the one accepted.\<close>

type_synonym answer = "string list \<times> string"

text \<open>The input lines of a list of answers, in the order typed.\<close>

definition typed_lines :: "answer list \<Rightarrow> string list" where
  "typed_lines answers = concat (map (\<lambda>(rejected, final). rejected @ [final]) answers)"

text \<open>The rows of the data frame whose area is relevant, each with its index, in the
  order of the data frame.\<close>

definition relevant_rows :: "string set \<Rightarrow> dataframe \<Rightarrow> (nat \<times> row) list" where
  "relevant_rows relevant_areas df =
     filter (\<lambda>(index, r). cell_in (Area r) relevant_areas) (enumerate 0 df)"

text \<open>What is printed for one test: its three heading lines, then the prompt and the
  rejection for every rejected line, then the prompt that got the accepted line.\<close>

definition test_dialogue :: "row \<Rightarrow> answer \<Rightarrow> string list" where
  "test_dialogue r answer =
     [''\<newline>--- '' @ str_cell (Area r) @ '': '' @ str_cell (Test r) @ '' ---'',
      ''Description: '' @ str_cell (Test_Description r),
      ''You fail if: '' @ str_cell (Fail_Criteria r)]
     @ concat (map (\<lambda>line.
         [''\<newline>Did you fail this test? (y/n/skip): '',
          ''Invalid response. Please enter 'y', 'n', or 'skip'.'']) (fst answer))
     @ [''\<newline>Did you fail this test? (y/n/skip): '']"

text \<open>The indices of the shown rows whose accepted line is \<open>y\<close> in any case of the letter.\<close>

definition reported_failed :: "(nat \<times> row) list \<Rightarrow> answer list \<Rightarrow> nat list" where
  "reported_failed shown answers =
     [index. ((index, r), (rejected, final)) \<leftarrow> zip shown answers, lower final = ''y'']"

text \<open>The dialogues of the shown rows, one after the other.\<close>

definition dialogues :: "(nat \<times> row) list \<Rightarrow> answer list \<Rightarrow> string list" where
  "dialogues shown answers =
     concat (map (\<lambda>((index, r), answer). test_dialogue r answer) (zip shown answers))"

text \<open>A row for the examples.\<close>

definition example_row :: "string \<Rightarrow> string \<Rightarrow> cell \<Rightarrow> row" where
  "example_row area test advice =
     \<lparr>Area = Some area, Test = Some test, Test_Description = Some ''how'',
      Fail_Criteria = Some ''when'', Solution_1 = Some ''one'', Solution_2 = None,
      Solution_3 = Some ''three'', Solution_4 = advice\<rparr>"

text \<open>The position of the first occurrence of \<open>a\<close> in \<open>xs\<close> (the length of \<open>xs\<close> when there is none).\<close>

definition first_index :: "'a list \<Rightarrow> 'a \<Rightarrow> nat" where
  "first_index xs a = length (takeWhile (\<lambda>x. x \<noteq> a) xs)"

text \<open>The dict \<open>area_counts\<close> after the counting loop has run over a list of areas.\<close>

definition tally :: "cell list \<Rightarrow> (cell \<times> nat) list" where
  "tally areas = fold (\<lambda>area area_counts. count_area area_counts area) areas []"

text \<open>The areas in the order of \<open>sorted_areas\<close>, as the list of top issues prints them.\<close>

definition ranked_areas :: "cell list \<Rightarrow> cell list" where
  "ranked_areas areas = map fst (sorted_reverse snd (tally areas))"

text \<open>The rows at the failed indices, in the order of the failure list.\<close>

definition failed_rows :: "dataframe \<Rightarrow> nat list \<Rightarrow> row list" where
  "failed_rows df failed_indices = map (\<lambda>idx. df ! idx) failed_indices"

text \<open>A block of corrective exercises: the heading with area and test, then the first three
  solutions, numbered.\<close>

definition exercise_block :: "row \<Rightarrow> string list" where
  "exercise_block r =
     [''\<newline>-- '' @ str_cell (Area r) @ '': '' @ str_cell (Test r) @ '' --'',
      ''  1. '' @ str_cell (Solution_1 r),
      ''  2. '' @ str_cell (Solution_2 r),
      ''  3. '' @ str_cell (Solution_3 r)]"

text \<open>The line of a tip.\<close>

definition tip_text :: "cell \<Rightarrow> cell \<Rightarrow> string" where
  "tip_text area advice = ''- '' @ str_cell area @ '': '' @ str_cell advice"

text \<open>The tips attributed to a lift: one for each failed row that has a fourth solution and
  whose area the lift lists, in the order of the failure list.\<close>

definition lift_tips :: "row list \<Rightarrow> string \<Rightarrow> string list" where
  "lift_tips rows lift =
     [tip_text (Area r) (Solution_4 r).
        r \<leftarrow> rows, notna (Solution_4 r), cell_in (Area r) (lift_areas [lift])]"

text \<open>The part of the implementation notes for a lift: nothing when it has no tip.\<close>

definition lift_notes :: "row list \<Rightarrow> string \<Rightarrow> string list" where
  "lift_notes rows lift =
     (if lift_tips rows lift = [] then []
      else (''\<newline>For '' @ lift @ '':'') # lift_tips rows lift)"

text \<open>The sections of the customized plan.\<close>

definition plan_opening :: "string list" where
  "plan_opening =
     [''\<newline>=== YOUR CUSTOMIZED WARMUP PLAN ===\<newline>'',
      ''Based on your assessment, here's your personalized warmup routine:'',
      ''\<newline>1. Start with 5-10 minutes of light cardio (rowing, cycling, or jumping jacks)'',
      ''\<newline>2. Targeted mobility/stability work:'']"

text \<open>The list of top issues for the areas in the order given.\<close>

definition issue_list :: "cell list \<Rightarrow> string list" where
  "issue_list ranked =
     ''\<newline>Your top issues are in these areas (prioritized):''
     # map (\<lambda>area. ''- '' @ str_cell area) ranked"

definition issue_lines :: "row list \<Rightarrow> string list" where
  "issue_lines rows = issue_list (ranked_areas (map Area rows))"

definition exercise_lines :: "row list \<Rightarrow> string list" where
  "exercise_lines rows =
     ''\<newline>Perform these corrective exercises:''
     # concat (map exercise_block (take 5 rows))"

definition notes_heading :: "string list \<Rightarrow> string list" where
  "notes_heading selected_lifts =
     [''\<newline>=== IMPLEMENTATION NOTES ==='',
      ''For your '' @ join '', '' selected_lifts @ '' today, consider these adjustments:'']"

text \<open>Data frames for the examples.\<close>

definition hips_and_lats :: dataframe where
  "hips_and_lats =
     [example_row ''Hip Flexion'' ''Lunge'' None,
      example_row ''Lat Flexibility'' ''Hang'' None,
      example_row ''Hip Flexion'' ''Knee hug'' None]"

definition seven_tests :: dataframe where
  "seven_tests =
     [example_row ''Ankle Mobility'' ''Knee to wall'' None,
      example_row ''Hip Flexion'' ''Lunge'' None,
      example_row ''Hip Internal Rotation'' ''Seated turn in'' None,
      example_row ''Hip External Rotation'' ''Seated turn out'' None,
      example_row ''Thoracic Extension'' ''Wall slide'' None,
      example_row ''Shoulder Internal Rotation'' ''Sleeper'' None,
      example_row ''Lat Flexibility'' ''Hang'' None]"

definition bench_day :: dataframe where
  "bench_day =
     [example_row ''Wrist Mobility'' ''Prayer'' (Some ''Use wrist wraps''),
      example_row ''Bench Setup'' ''Arch'' (Some ''Set the shoulder blades''),
      example_row ''Squat Pattern'' ''Goblet'' None]"

definition sore_squatter :: dataframe where
  "sore_squatter =
     [example_row ''General Pain Assessment'' ''Pain scale'' (Some ''Rest''),
      example_row ''Squat Pattern'' ''Goblet'' (Some ''Pause at the bottom'')]"


section \<open>The relevant areas\<close>

lemma fold_insert_set: "fold insert xs S = S \<union> set xs"
  by (induction xs arbitrary: S) auto

lemma dom_LIFT_SPECIFIC_TESTS:
  "dom LIFT_SPECIFIC_TESTS = {''squat'', ''bench'', ''deadlift''}"
  by (auto simp: LIFT_SPECIFIC_TESTS_def split: if_splits)

lemma lift_areas_Cons:
  "LIFT_SPECIFIC_TESTS lift = Some tests \<Longrightarrow>
   lift_areas (lift # lifts) = set tests \<union> lift_areas lifts"
  by (simp add: lift_areas_def)

lemma add_lift_tests_Inr:
  "set lifts \<subseteq> dom LIFT_SPECIFIC_TESTS \<Longrightarrow>
   add_lift_tests S lifts = Inr (S \<union> lift_areas lifts)"
proof (induction lifts arbitrary: S)
  case Nil
  then show ?case by (simp add: lift_areas_def)
next
  case (Cons lift lifts)
  then obtain tests where t: "LIFT_SPECIFIC_TESTS lift = Some tests" by auto
  with Cons show ?case
    by (simp add: fold_insert_set lift_areas_Cons Un_assoc)
qed

lemma add_lift_tests_Inl:
  "\<not> set lifts \<subseteq> dom LIFT_SPECIFIC_TESTS \<Longrightarrow> add_lift_tests S lifts = Inl KeyError"
  by (induction lifts arbitrary: S) (auto split: option.splits)

lemma get_relevant_tests_Inr:
  "set lifts \<subseteq> dom LIFT_SPECIFIC_TESTS \<Longrightarrow>
   get_relevant_tests lifts = Inr (set FUNDAMENTAL_TESTS \<union> lift_areas lifts)"
  unfolding get_relevant_tests_def by (rule add_lift_tests_Inr)

text \<open>
  Claim C1. For a selection among squat, bench and deadlift, \<open>get_relevant_tests\<close>
  returns a set (it raises nothing), and an area is in that set exactly when it is a
  fundamental area or some selected lift lists it in \<open>LIFT_SPECIFIC_TESTS\<close>. So the set
  contains every fundamental area, and for the empty selection it is the set of the
  fundamental areas.
\<close>

theorem get_relevant_tests_membership:
  assumes "set lifts \<subseteq> {''squat'', ''bench'', ''deadlift''}"
  shows "\<exists>relevant_areas. get_relevant_tests lifts = Inr relevant_areas
     \<and> (\<forall>area. area \<in> relevant_areas \<longleftrightarrow>
           area \<in> set FUNDAMENTAL_TESTS
           \<or> (\<exists>lift \<in> set lifts. \<exists>tests.
                 LIFT_SPECIFIC_TESTS lift = Some tests \<and> area \<in> set tests))
     \<and> set FUNDAMENTAL_TESTS \<subseteq> relevant_areas
     \<and> (lifts = [] \<longrightarrow> relevant_areas = set FUNDAMENTAL_TESTS)"
proof -
  from assms have "set lifts \<subseteq> dom LIFT_SPECIFIC_TESTS"
    by (simp only: dom_LIFT_SPECIFIC_TESTS)
  then have "get_relevant_tests lifts = Inr (set FUNDAMENTAL_TESTS \<union> lift_areas lifts)"
    by (rule get_relevant_tests_Inr)
  then show ?thesis
    by (auto simp: lift_areas_def split: option.splits)
qed

theorem get_relevant_tests_membership_witness:
  "set [''squat'', ''deadlift''] \<subseteq> {''squat'', ''bench'', ''deadlift''}
   \<and> (\<exists>relevant_areas. get_relevant_tests [''squat'', ''deadlift''] = Inr relevant_areas
     \<and> (\<forall>area. area \<in> relevant_areas \<longleftrightarrow>
           area \<in> set FUNDAMENTAL_TESTS
           \<or> (\<exists>lift \<in> set [''squat'', ''deadlift'']. \<exists>tests.
                 LIFT_SPECIFIC_TESTS lift = Some tests \<and> area \<in> set tests))
     \<and> set FUNDAMENTAL_TESTS \<subseteq> relevant_areas
     \<and> ([''squat'', ''deadlift''] = [] \<longrightarrow> relevant_areas = set FUNDAMENTAL_TESTS))
   \<and> (\<exists>relevant_areas. get_relevant_tests [] = Inr relevant_areas
     \<and> relevant_areas = set FUNDAMENTAL_TESTS)"
proof -
  have h: "set [''squat'', ''deadlift''] \<subseteq> {''squat'', ''bench'', ''deadlift''}"
    by simp
  have e: "set ([] :: string list) \<subseteq> {''squat'', ''bench'', ''deadlift''}"
    by simp
  from get_relevant_tests_membership [OF e]
  have "\<exists>relevant_areas. get_relevant_tests [] = Inr relevant_areas
     \<and> relevant_areas = set FUNDAMENTAL_TESTS"
    by blast
  with h get_relevant_tests_membership [OF h] show ?thesis
    by blast
qed

text \<open>
  Claim C8. The result of \<open>get_relevant_tests\<close> is a function of the selection as a
  set: two calls on the same selection, in whatever order and however often its lifts
  are listed, give the same outcome, and so the same set of areas.
\<close>

theorem get_relevant_tests_same_selection:
  assumes "set lifts = set lifts'"
  shows "get_relevant_tests lifts = get_relevant_tests lifts'"
proof (cases "set lifts \<subseteq> dom LIFT_SPECIFIC_TESTS")
  case True
  with assms have "set lifts' \<subseteq> dom LIFT_SPECIFIC_TESTS"
    by simp
  moreover have "lift_areas lifts = lift_areas lifts'"
    using assms by (simp add: lift_areas_def)
  ultimately show ?thesis
    using True by (simp add: get_relevant_tests_Inr)
next
  case False
  with assms have "\<not> set lifts' \<subseteq> dom LIFT_SPECIFIC_TESTS"
    by simp
  with False show ?thesis
    by (simp add: get_relevant_tests_def add_lift_tests_Inl)
qed

theorem get_relevant_tests_same_selection_witness:
  "set [''squat'', ''bench''] = set [''bench'', ''squat'', ''bench'']
   \<and> get_relevant_tests [''squat'', ''bench'']
       = get_relevant_tests [''bench'', ''squat'', ''bench'']"
proof -
  have h: "set [''squat'', ''bench''] = set [''bench'', ''squat'', ''bench'']"
    by auto
  from h get_relevant_tests_same_selection [OF h] show ?thesis
    by (rule conjI)
qed

section \<open>What the console holds after printing\<close>

lemma print_lines_eq: "print_lines ls c = c\<lparr>stdout := stdout c @ ls\<rparr>"
  unfolding print_lines_def
  by (induction ls arbitrary: c) (simp_all add: print_line_def)

lemma print_progressions_eq:
  "print_progressions step lifts c =
     c\<lparr>stdout := stdout c @ concat (map (progression_lines step) lifts)\<rparr>"
  unfolding print_progressions_def
  by (induction lifts arbitrary: c) (simp_all add: print_lines_eq)

section \<open>A failed load\<close>

text \<open>
  Claim C7. When \<^verbatim>\<open>read_csv\<close> raises, the run ends normally with one more line on
  the output, the error message, and nothing else done: no line of the input is read
  (no prompt for a lift or for a test) and no plan is printed.
\<close>

theorem load_failure_aborts:
  "run_assessment (Inl e) c =
     Inr (c\<lparr>stdout := stdout c @ [''Error loading CSV file: '' @ e]\<rparr>)"
  by (simp add: run_assessment_def load_assessment_data_def print_line_def)

section \<open>The plan when every test passed\<close>

text \<open>
  Claim C6. With no failed test, \<open>generate_warmup_plan\<close> prints the all-passed
  template and nothing more: the title, the congratulation and the cardio line, then for
  each selected lift the standard progression of five steps. The data frame has no part
  in it, and none of the headings of the customized plan (top issues, corrective
  exercises, implementation notes) is printed.
\<close>

theorem all_passed_plan:
  "\<exists>printed.
     generate_warmup_plan assessment_data [] selected_lifts c =
       Inr (c\<lparr>stdout := stdout c @ printed\<rparr>)
     \<and> printed =
       [''\<newline>=== YOUR WARMUP PLAN ===\<newline>'',
        ''Congratulations! You passed all tests. Here's a basic warmup routine:'',
        ''1. 5-10 minutes of light cardio (rowing, cycling, or jumping jacks)'']
       @ concat (map (\<lambda>lift.
          [''\<newline>2. Standard '' @ lift @ '' progression:'',
           ''   - Empty bar: 10-15 reps'',
           ''   - 40% of working weight: 8-10 reps'',
           ''   - 60% of working weight: 5-8 reps'',
           ''   - 75% of working weight: 3-5 reps'',
           ''   - 85-90% of working weight: 1-2 reps (optional)'']) selected_lifts)
     \<and> ''\<newline>Your top issues are in these areas (prioritized):'' \<notin> set printed
     \<and> ''\<newline>Perform these corrective exercises:'' \<notin> set printed
     \<and> ''\<newline>=== IMPLEMENTATION NOTES ==='' \<notin> set printed"
  by (simp add: generate_warmup_plan_def print_lines_eq print_progressions_eq
        progression_lines_def [abs_def])

section \<open>The selection of lifts\<close>

text \<open>
  What \<open>select_lifts\<close> returns is a selection as the theorems on the customized plan
  take it: lifts of the table, each at most once.
\<close>

lemma select_lifts_selection:
  "select_lifts c = Inr (lifts, c') \<Longrightarrow>
   distinct lifts \<and> set lifts \<subseteq> {''squat'', ''bench'', ''deadlift''}"
  by (auto simp: select_lifts_def Let_def split: sum.splits if_splits)

section \<open>The assessment loop\<close>

declare ask_response.simps [simp del]

lemma ask_response_answer:
  "stdin c = rejected @ final # rest \<Longrightarrow>
   \<forall>line \<in> set rejected. \<not> valid_response line \<Longrightarrow> valid_response final \<Longrightarrow>
   ask_response c =
     Inr (lower final,
          c\<lparr>stdin := rest,
            stdout := stdout c
              @ concat (map (\<lambda>line.
                  [''\<newline>Did you fail this test? (y/n/skip): '',
                   ''Invalid response. Please enter 'y', 'n', or 'skip'.'']) rejected)
              @ [''\<newline>Did you fail this test? (y/n/skip): '']\<rparr>)"
proof (induction rejected arbitrary: c)
  case Nil
  then show ?case
    by (subst ask_response.simps) (simp add: read_input_def valid_response_def)
next
  case (Cons line rejected)
  let ?c' = "print_line ''Invalid response. Please enter 'y', 'n', or 'skip'.''
              (c\<lparr>stdin := rejected @ final # rest,
                 stdout := stdout c @ [''\<newline>Did you fail this test? (y/n/skip): '']\<rparr>)"
  have "stdin ?c' = rejected @ final # rest"
    by (simp add: print_line_def)
  with Cons have IH: "ask_response ?c' =
     Inr (lower final,
          ?c'\<lparr>stdin := rest,
            stdout := stdout ?c'
              @ concat (map (\<lambda>line.
                  [''\<newline>Did you fail this test? (y/n/skip): '',
                   ''Invalid response. Please enter 'y', 'n', or 'skip'.'']) rejected)
              @ [''\<newline>Did you fail this test? (y/n/skip): '']\<rparr>)"
    by simp
  from Cons.prems have "\<not> valid_response line" by simp
  with Cons.prems(1) show ?case
    by (subst ask_response.simps) (simp add: read_input_def valid_response_def IH, simp add: print_line_def)
qed

lemma reported_failed_Cons:
  "reported_failed ((index, r) # shown) ((rejected, final) # answers) =
     (if lower final = ''y'' then [index] else []) @ reported_failed shown answers"
  by (simp add: reported_failed_def)

lemma dialogues_Cons:
  "dialogues ((index, r) # shown) (answer # answers) =
     test_dialogue r answer @ dialogues shown answers"
  by (simp add: dialogues_def)

lemma assess_rows_answers:
  "length answers = length (filter (\<lambda>(index, r). cell_in (Area r) relevant_areas) rows) \<Longrightarrow>
   \<forall>(rejected, final) \<in> set answers.
      (\<forall>line \<in> set rejected. \<not> valid_response line) \<and> valid_response final \<Longrightarrow>
   stdin c = typed_lines answers @ rest \<Longrightarrow>
   assess_rows relevant_areas rows failed_tests c =
     Inr (failed_tests
            @ reported_failed (filter (\<lambda>(index, r). cell_in (Area r) relevant_areas) rows) answers,
          c\<lparr>stdin := rest,
            stdout := stdout c
              @ dialogues (filter (\<lambda>(index, r). cell_in (Area r) relevant_areas) rows) answers\<rparr>)"
proof (induction rows arbitrary: answers failed_tests c)
  case Nil
  then show ?case
    by (simp add: reported_failed_def dialogues_def typed_lines_def)
next
  case (Cons ir rows)
  obtain index r where ir: "ir = (index, r)" by (cases ir)
  show ?case
  proof (cases "cell_in (Area r) relevant_areas")
    case False
    with Cons ir show ?thesis by simp
  next
    case True
    with Cons.prems(1) ir obtain rejected final answers' where
      answers: "answers = (rejected, final) # answers'"
      by (cases answers) auto
    define c3 where "c3 =
        print_line (''You fail if: '' @ str_cell (Fail_Criteria r))
          (print_line (''Description: '' @ str_cell (Test_Description r))
            (print_line (''\<newline>--- '' @ str_cell (Area r) @ '': ''
                          @ str_cell (Test r) @ '' ---'') c))"
    define c4 where "c4 =
        c3\<lparr>stdin := typed_lines answers' @ rest,
           stdout := stdout c3
             @ concat (map (\<lambda>line.
                 [''\<newline>Did you fail this test? (y/n/skip): '',
                  ''Invalid response. Please enter 'y', 'n', or 'skip'.'']) rejected)
             @ [''\<newline>Did you fail this test? (y/n/skip): '']\<rparr>"
    define failed' where "failed' =
        (if lower final = ''y'' then failed_tests @ [index] else failed_tests)"
    have "stdin c3 = rejected @ final # (typed_lines answers' @ rest)"
      using Cons.prems(3) answers by (simp add: c3_def print_line_def typed_lines_def)
    moreover have "\<forall>line \<in> set rejected. \<not> valid_response line" "valid_response final"
      using Cons.prems(2) answers by auto
    ultimately have ask: "ask_response c3 = Inr (lower final, c4)"
      unfolding c4_def by (rule ask_response_answer)
    have len: "length answers' =
        length (filter (\<lambda>(index, r). cell_in (Area r) relevant_areas) rows)"
      using Cons.prems(1) answers ir True by simp
    have ok: "\<forall>(rejected, final) \<in> set answers'.
        (\<forall>line \<in> set rejected. \<not> valid_response line) \<and> valid_response final"
      using Cons.prems(2) answers by simp
    have inp: "stdin c4 = typed_lines answers' @ rest"
      by (simp add: c4_def)
    have "assess_rows relevant_areas (ir # rows) failed_tests c =
        (case ask_response c3 of
           Inl e \<Rightarrow> Inl e
         | Inr (response, c4) \<Rightarrow>
             assess_rows relevant_areas rows
               (if response = ''y'' then failed_tests @ [index] else failed_tests) c4)"
      by (simp add: ir True c3_def Let_def)
    also have "\<dots> = assess_rows relevant_areas rows failed' c4"
      by (simp add: ask failed'_def)
    also note Cons.IH [OF len ok inp]
    finally show ?thesis
      by (simp add: ir answers True failed'_def c4_def c3_def reported_failed_Cons
            dialogues_Cons test_dialogue_def print_line_def)
  qed
qed

lemma reported_failed_subset:
  "set (reported_failed shown answers) \<subseteq> fst ` set shown"
  unfolding reported_failed_def by (force dest: set_zip_leftD)

lemma reported_failed_sorted:
  "sorted_wrt (<) (map fst shown) \<Longrightarrow> sorted_wrt (<) (reported_failed shown answers)"
proof (induction shown arbitrary: answers)
  case Nil
  then show ?case by (simp add: reported_failed_def)
next
  case (Cons ir shown)
  obtain index r where ir: "ir = (index, r)" by (cases ir)
  show ?case
  proof (cases answers)
    case Nil
    then show ?thesis by (simp add: reported_failed_def)
  next
    case (Cons answer answers')
    obtain rejected final where answer: "answer = (rejected, final)" by (cases answer)
    have "\<forall>j \<in> set (reported_failed shown answers'). index < j"
      using Cons.prems reported_failed_subset [of shown answers'] ir by auto
    with Cons.IH [of answers'] Cons.prems show ?thesis
      by (simp add: ir Cons answer reported_failed_Cons)
  qed
qed

lemma relevant_rows_indices_sorted:
  "sorted_wrt (<) (map fst (relevant_rows relevant_areas df))"
proof -
  have "sorted_wrt (<) (map fst (enumerate 0 df))"
    by simp
  then have "sorted_wrt (\<lambda>x y. fst x < fst y) (enumerate 0 df)"
    by (simp only: sorted_wrt_map)
  then have "sorted_wrt (\<lambda>x y. fst x < fst y)
      (filter (\<lambda>(index, r). cell_in (Area r) relevant_areas) (enumerate 0 df))"
    by (rule sorted_wrt_filter)
  then show ?thesis
    unfolding relevant_rows_def by (simp only: sorted_wrt_map)
qed

lemma relevant_rows_member:
  "(index, r) \<in> set (relevant_rows relevant_areas df) \<longleftrightarrow>
   index < length df \<and> r = df ! index \<and> cell_in (Area r) relevant_areas"
  unfolding relevant_rows_def by (auto simp: in_set_enumerate_eq)

text \<open>
  Claim C2. Let the user type, for each relevant row of the data frame in turn, any
  number of lines that are not \<open>y\<close>, \<open>n\<close> or \<open>skip\<close> in any case of the letters, and
  then one line that is. The loop then reads exactly these lines. It prints the
  dialogues of the relevant rows in the order of the data frame, and nothing for a row
  whose area is not relevant; within a dialogue every rejected line is answered by the
  rejection and the same prompt again, before the next row is shown. It returns the
  indices of the relevant rows whose accepted line was \<open>y\<close>, in increasing order.
\<close>

theorem assessment_loop:
  assumes "length answers = length (relevant_rows relevant_areas df)"
    and "\<forall>(rejected, final) \<in> set answers.
           (\<forall>line \<in> set rejected. \<not> valid_response line) \<and> valid_response final"
    and "stdin c = typed_lines answers @ rest"
  shows "assess_rows relevant_areas (enumerate 0 df) [] c =
           Inr (reported_failed (relevant_rows relevant_areas df) answers,
                c\<lparr>stdin := rest,
                  stdout := stdout c @ dialogues (relevant_rows relevant_areas df) answers\<rparr>)
         \<and> sorted_wrt (<) (reported_failed (relevant_rows relevant_areas df) answers)
         \<and> (\<forall>index \<in> set (reported_failed (relevant_rows relevant_areas df) answers).
               index < length df \<and> cell_in (Area (df ! index)) relevant_areas)"
proof -
  have "assess_rows relevant_areas (enumerate 0 df) [] c =
           Inr ([] @ reported_failed (relevant_rows relevant_areas df) answers,
                c\<lparr>stdin := rest,
                  stdout := stdout c @ dialogues (relevant_rows relevant_areas df) answers\<rparr>)"
    unfolding relevant_rows_def
    using assms unfolding relevant_rows_def by (rule assess_rows_answers)
  moreover have "sorted_wrt (<) (reported_failed (relevant_rows relevant_areas df) answers)"
    by (rule reported_failed_sorted) (rule relevant_rows_indices_sorted)
  moreover have "\<forall>index \<in> set (reported_failed (relevant_rows relevant_areas df) answers).
      index < length df \<and> cell_in (Area (df ! index)) relevant_areas"
    using reported_failed_subset [of "relevant_rows relevant_areas df" answers]
    by (auto simp: relevant_rows_member)
  ultimately show ?thesis by simp
qed

theorem assessment_loop_witness:
  "\<not> valid_response ''maybe'' \<and> valid_response ''Y'' \<and> valid_response ''n''
   \<and> assess_rows {''Hip Flexion'', ''CNS Fatigue''}
        (enumerate 0
          [example_row ''Hip Flexion'' ''Lunge'' None,
           example_row ''Wrist Mobility'' ''Prayer'' None,
           example_row ''CNS Fatigue'' ''Grip'' None])
        [] \<lparr>stdin = [''maybe'', ''Y'', ''n'', ''later''], stdout = []\<rparr>
      = Inr ([0],
          \<lparr>stdin = [''later''],
           stdout =
             [''\<newline>--- Hip Flexion: Lunge ---'', ''Description: how'', ''You fail if: when'',
              ''\<newline>Did you fail this test? (y/n/skip): '',
              ''Invalid response. Please enter 'y', 'n', or 'skip'.'',
              ''\<newline>Did you fail this test? (y/n/skip): '',
              ''\<newline>--- CNS Fatigue: Grip ---'', ''Description: how'', ''You fail if: when'',
              ''\<newline>Did you fail this test? (y/n/skip): '']\<rparr>)"
proof -
  let ?df = "[example_row ''Hip Flexion'' ''Lunge'' None,
              example_row ''Wrist Mobility'' ''Prayer'' None,
              example_row ''CNS Fatigue'' ''Grip'' None]"
  let ?rel = "{''Hip Flexion'', ''CNS Fatigue''}"
  let ?answers = "[([''maybe''], ''Y''), ([], ''n'')]"
  let ?c = "\<lparr>stdin = [''maybe'', ''Y'', ''n'', ''later''], stdout = []\<rparr>"
  have v: "\<not> valid_response ''maybe''" "valid_response ''Y''" "valid_response ''n''"
    by (simp_all add: valid_response_def lower_def lower_char_def)
  have rows: "relevant_rows ?rel ?df =
      [(0, example_row ''Hip Flexion'' ''Lunge'' None),
       (2, example_row ''CNS Fatigue'' ''Grip'' None)]"
    by (simp add: relevant_rows_def example_row_def enumerate_eq_zip upt_rec)
  have h1: "length ?answers = length (relevant_rows ?rel ?df)"
    by (simp add: rows)
  have h2: "\<forall>(rejected, final) \<in> set ?answers.
      (\<forall>line \<in> set rejected. \<not> valid_response line) \<and> valid_response final"
    using v by simp
  have h3: "stdin ?c = typed_lines ?answers @ [''later'']"
    by (simp add: typed_lines_def)
  have rf: "reported_failed
      [(0, example_row ''Hip Flexion'' ''Lunge'' None),
       (2, example_row ''CNS Fatigue'' ''Grip'' None)] ?answers = [0]"
    by (simp add: reported_failed_def lower_def lower_char_def)
  have dl: "dialogues
      [(0, example_row ''Hip Flexion'' ''Lunge'' None),
       (2, example_row ''CNS Fatigue'' ''Grip'' None)] ?answers =
      [''\<newline>--- Hip Flexion: Lunge ---'', ''Description: how'', ''You fail if: when'',
       ''\<newline>Did you fail this test? (y/n/skip): '',
       ''Invalid response. Please enter 'y', 'n', or 'skip'.'',
       ''\<newline>Did you fail this test? (y/n/skip): '',
       ''\<newline>--- CNS Fatigue: Grip ---'', ''Description: how'', ''You fail if: when'',
       ''\<newline>Did you fail this test? (y/n/skip): '']"
    by (simp add: dialogues_def test_dialogue_def example_row_def)
  have out: "?c\<lparr>stdin := [''later''],
      stdout := stdout ?c @
      [''\<newline>--- Hip Flexion: Lunge ---'', ''Description: how'', ''You fail if: when'',
       ''\<newline>Did you fail this test? (y/n/skip): '',
       ''Invalid response. Please enter 'y', 'n', or 'skip'.'',
       ''\<newline>Did you fail this test? (y/n/skip): '',
       ''\<newline>--- CNS Fatigue: Grip ---'', ''Description: how'', ''You fail if: when'',
       ''\<newline>Did you fail this test? (y/n/skip): '']\<rparr> =
     \<lparr>stdin = [''later''],
      stdout =
      [''\<newline>--- Hip Flexion: Lunge ---'', ''Description: how'', ''You fail if: when'',
       ''\<newline>Did you fail this test? (y/n/skip): '',
       ''Invalid response. Please enter 'y', 'n', or 'skip'.'',
       ''\<newline>Did you fail this test? (y/n/skip): '',
       ''\<newline>--- CNS Fatigue: Grip ---'', ''Description: how'', ''You fail if: when'',
       ''\<newline>Did you fail this test? (y/n/skip): '']\<rparr>"
    by simp
  have "assess_rows ?rel (enumerate 0 ?df) [] ?c =
      Inr (reported_failed (relevant_rows ?rel ?df) ?answers,
           ?c\<lparr>stdin := [''later''],
             stdout := stdout ?c @ dialogues (relevant_rows ?rel ?df) ?answers\<rparr>)"
    using assessment_loop [OF h1 h2 h3] by (rule conjunct1)
  then have "assess_rows ?rel (enumerate 0 ?df) [] ?c =
      Inr ([0], \<lparr>stdin = [''later''],
      stdout =
      [''\<newline>--- Hip Flexion: Lunge ---'', ''Description: how'', ''You fail if: when'',
       ''\<newline>Did you fail this test? (y/n/skip): '',
       ''Invalid response. Please enter 'y', 'n', or 'skip'.'',
       ''\<newline>Did you fail this test? (y/n/skip): '',
       ''\<newline>--- CNS Fatigue: Grip ---'', ''Description: how'', ''You fail if: when'',
       ''\<newline>Did you fail this test? (y/n/skip): '']\<rparr>)"
    by (simp only: rows rf dl out)
  with v show ?thesis
    by (intro conjI)
qed

section \<open>Counting and ranking the failed areas\<close>

lemma keys_count_area:
  "map fst (count_area ac a) =
     (if notna a \<and> a \<in> fst ` set ac then map fst ac else map fst ac @ [a])"
  by (induction ac a rule: count_area.induct) auto

lemma map_of_count_area:
  "notna a \<Longrightarrow>
   map_of (count_area ac a) k =
     (if k = a then Some (case map_of ac a of None \<Rightarrow> 1 | Some n \<Rightarrow> n + 1) else map_of ac k)"
  by (induction ac a rule: count_area.induct) auto

lemma tally_snoc: "tally (areas @ [a]) = count_area (tally areas) a"
  by (simp add: tally_def)

lemma first_index_snoc:
  "first_index (xs @ [a]) x =
     (if x \<in> set xs then first_index xs x
      else if x = a then length xs else Suc (length xs))"
  unfolding first_index_def by (induction xs) auto

lemma first_index_less: "x \<in> set xs \<Longrightarrow> first_index xs x < length xs"
  unfolding first_index_def by (induction xs) auto

text \<open>Two failed rows with a missing Area make two keys, each counted once.\<close>

lemma tally_missing_areas: "tally [None, None] = [(None, 1), (None, 1)]"
  by (simp add: tally_def)

lemma tally_set: "set (map fst (tally fa)) = set fa"
proof (induction fa rule: rev_induct)
  case Nil
  then show ?case by (simp add: tally_def)
next
  case (snoc a fa)
  then have "fst ` set (tally fa) = set fa" by simp
  then show ?case
    by (auto simp: tally_snoc keys_count_area)
qed

text \<open>
  When every area is a text, the keys are the distinct areas in the order of their first
  occurrence, each with the number of its occurrences.
\<close>

lemma tally_keys:
  assumes "\<forall>a \<in> set fa. notna a"
  shows "distinct (map fst (tally fa))
   \<and> sorted_wrt (\<lambda>a b. first_index fa a < first_index fa b) (map fst (tally fa))"
  using assms
proof (induction fa rule: rev_induct)
  case Nil
  then show ?case by (simp add: tally_def)
next
  case (snoc a fa)
  then have IH: "distinct (map fst (tally fa))"
    "sorted_wrt (\<lambda>a b. first_index fa a < first_index fa b) (map fst (tally fa))"
    by simp_all
  have keyset: "set (map fst (tally fa)) = set fa"
    by (rule tally_set)
  have present: "notna a"
    using snoc.prems by simp
  have sorted: "sorted_wrt (\<lambda>x y. first_index (fa @ [a]) x < first_index (fa @ [a]) y)
          (map fst (tally fa))"
    using IH(2) keyset
    by (auto simp: first_index_snoc elim!: sorted_wrt_mono_rel [rotated])
  show ?case
  proof (cases "a \<in> set fa")
    case True
    with keyset present have keys: "map fst (tally (fa @ [a])) = map fst (tally fa)"
      by (simp add: tally_snoc keys_count_area)
    from IH(1) sorted show ?thesis
      unfolding keys by simp
  next
    case False
    with keyset have keys: "map fst (tally (fa @ [a])) = map fst (tally fa) @ [a]"
      by (simp add: tally_snoc keys_count_area)
    have lt: "\<And>x. x \<in> set fa \<Longrightarrow> first_index fa x < length fa"
      by (rule first_index_less)
    from IH(1) sorted keyset False lt show ?thesis
      unfolding keys by (auto simp: sorted_wrt_append first_index_snoc)
  qed
qed

lemma tally_counts:
  assumes "\<forall>a \<in> set fa. notna a"
  shows "map_of (tally fa) a = (if a \<in> set fa then Some (count_list fa a) else None)"
  using assms
proof (induction fa rule: rev_induct)
  case Nil
  then show ?case by (simp add: tally_def)
next
  case (snoc b fa)
  then show ?case
    by (auto simp: tally_snoc map_of_count_area)
qed

lemma tally_member_count:
  assumes "\<forall>a \<in> set fa. notna a" and "(a, n) \<in> set (tally fa)"
  shows "n = count_list fa a"
proof -
  have "distinct (map fst (tally fa))"
    using tally_keys [OF assms(1)] by simp
  then have "map_of (tally fa) a = Some n"
    using assms(2) by (rule map_of_is_SomeI)
  then show ?thesis
    by (simp add: tally_counts [OF assms(1)] split: if_splits)
qed

lemma set_insort_reverse: "set (insort_reverse key x ys) = insert x (set ys)"
  by (induction ys) auto

lemma set_sorted_reverse: "set (sorted_reverse key xs) = set xs"
  unfolding sorted_reverse_def by (induction xs) (simp_all add: set_insort_reverse)

lemma length_insort_reverse: "length (insort_reverse key x ys) = Suc (length ys)"
  by (induction ys) auto

lemma length_sorted_reverse: "length (sorted_reverse key xs) = length xs"
  unfolding sorted_reverse_def by (induction xs) (simp_all add: length_insort_reverse)

lemma sorted_wrt_insort_reverse:
  assumes "sorted_wrt (\<lambda>x y. key y < key x \<or> (key x = key y \<and> R x y)) ys"
    and "\<forall>y \<in> set ys. R x y"
  shows "sorted_wrt (\<lambda>x y. key y < key x \<or> (key x = key y \<and> R x y)) (insort_reverse key x ys)"
  using assms
proof (induction ys)
  case Nil
  then show ?case by simp
next
  case (Cons y ys)
  show ?case
  proof (cases "key y \<le> key x")
    case True
    have "\<forall>z \<in> set (y # ys). key z < key x \<or> (key x = key z \<and> R x z)"
      using Cons.prems True by fastforce
    with Cons.prems True show ?thesis by simp
  next
    case False
    with Cons show ?thesis by (auto simp: set_insort_reverse)
  qed
qed

lemma sorted_wrt_sorted_reverse:
  "sorted_wrt R xs \<Longrightarrow>
   sorted_wrt (\<lambda>x y. key y < key x \<or> (key x = key y \<and> R x y)) (sorted_reverse key xs)"
proof (induction xs)
  case Nil
  then show ?case by (simp add: sorted_reverse_def)
next
  case (Cons x xs)
  have "sorted_reverse key (x # xs) = insort_reverse key x (sorted_reverse key xs)"
    by (simp add: sorted_reverse_def)
  with Cons show ?case
    by (simp add: sorted_wrt_insort_reverse set_sorted_reverse)
qed

text \<open>
  The model of \<^verbatim>\<open>sorted(..., reverse=True)\<close> agrees with the stable sort of the
  library in the way CPython computes it: reverse the list, sort it stably in ascending
  order, reverse the result.
\<close>

lemma mset_insort_reverse: "mset (insort_reverse key x ys) = add_mset x (mset ys)"
  by (induction ys) auto

lemma mset_sorted_reverse: "mset (sorted_reverse key xs) = mset xs"
  unfolding sorted_reverse_def by (induction xs) (simp_all add: mset_insort_reverse)

lemma filter_insort_reverse:
  "filter (\<lambda>y. k = key y) (insort_reverse key x ys) =
     (if k = key x then x # filter (\<lambda>y. k = key y) ys else filter (\<lambda>y. k = key y) ys)"
  by (induction ys) auto

lemma sorted_reverse_stable:
  "filter (\<lambda>y. k = key y) (sorted_reverse key xs) = filter (\<lambda>y. k = key y) xs"
  unfolding sorted_reverse_def by (induction xs) (auto simp: filter_insort_reverse)

lemma sorted_reverse_descending:
  "sorted_wrt (\<lambda>x y. key y \<le> key x) (sorted_reverse key xs)"
proof -
  have "sorted_wrt (\<lambda>x y. True) xs"
    by (induction xs) simp_all
  then have "sorted_wrt (\<lambda>x y. key y < key x \<or> (key x = key y \<and> True)) (sorted_reverse key xs)"
    by (rule sorted_wrt_sorted_reverse)
  then show ?thesis
    by (rule sorted_wrt_mono_rel [rotated]) auto
qed

lemma sorted_reverse_by_library_sort:
  "sorted_reverse key xs = rev (sort_key key (rev xs))"
proof -
  have "sort_key key (rev xs) = rev (sorted_reverse key xs)"
  proof (rule properties_for_sort_key)
    show "mset (rev (sorted_reverse key xs)) = mset (rev xs)"
      by (simp add: mset_sorted_reverse)
    show "filter (\<lambda>x. key k = key x) (rev (sorted_reverse key xs)) =
          filter (\<lambda>x. key k = key x) (rev xs)" for k
      by (simp add: rev_filter [symmetric] sorted_reverse_stable)
    show "sorted (map key (rev (sorted_reverse key xs)))"
      using sorted_reverse_descending [of key xs]
      by (simp add: rev_map [symmetric] sorted_wrt_rev sorted_wrt_map)
  qed
  then show ?thesis by simp
qed

lemma ranked_areas_set: "set (ranked_areas fa) = set fa"
  using tally_set [of fa] by (simp add: ranked_areas_def set_sorted_reverse)

lemma ranked_areas_distinct:
  assumes "\<forall>a \<in> set fa. notna a"
  shows "distinct (ranked_areas fa)"
proof -
  have "length (ranked_areas fa) = length (map fst (tally fa))"
    by (simp add: ranked_areas_def length_sorted_reverse)
  moreover have "set (ranked_areas fa) = set (map fst (tally fa))"
    by (simp add: ranked_areas_def set_sorted_reverse)
  moreover have "distinct (map fst (tally fa))"
    using tally_keys [OF assms] by simp
  ultimately show ?thesis
    by (metis card_distinct distinct_card)
qed

lemma ranked_areas_sorted:
  assumes "\<forall>a \<in> set fa. notna a"
  shows "sorted_wrt (\<lambda>a b. count_list fa b < count_list fa a
       \<or> (count_list fa a = count_list fa b \<and> first_index fa a < first_index fa b))
     (ranked_areas fa)"
proof -
  have "sorted_wrt (\<lambda>x y. first_index fa (fst x) < first_index fa (fst y)) (tally fa)"
    using tally_keys [OF assms] by (simp add: sorted_wrt_map)
  then have "sorted_wrt (\<lambda>x y. snd y < snd x
        \<or> (snd x = snd y \<and> first_index fa (fst x) < first_index fa (fst y)))
      (sorted_reverse snd (tally fa))"
    by (rule sorted_wrt_sorted_reverse)
  then have "sorted_wrt (\<lambda>x y. count_list fa (fst y) < count_list fa (fst x)
        \<or> (count_list fa (fst x) = count_list fa (fst y)
            \<and> first_index fa (fst x) < first_index fa (fst y)))
      (sorted_reverse snd (tally fa))"
  proof (rule sorted_wrt_mono_rel [rotated])
    fix x y
    assume "x \<in> set (sorted_reverse snd (tally fa))" "y \<in> set (sorted_reverse snd (tally fa))"
    then have "snd x = count_list fa (fst x)" "snd y = count_list fa (fst y)"
      using tally_member_count [OF assms, of "fst x" "snd x"]
        tally_member_count [OF assms, of "fst y" "snd y"]
      by (simp_all add: set_sorted_reverse)
    moreover assume "snd y < snd x
        \<or> (snd x = snd y \<and> first_index fa (fst x) < first_index fa (fst y))"
    ultimately show "count_list fa (fst y) < count_list fa (fst x)
        \<or> (count_list fa (fst x) = count_list fa (fst y)
            \<and> first_index fa (fst x) < first_index fa (fst y))"
      by simp
  qed
  then show ?thesis
    by (simp add: ranked_areas_def sorted_wrt_map)
qed

section \<open>The customized plan, section by section\<close>

lemma count_areas_eq:
  "\<forall>idx \<in> set failed. idx < length df \<Longrightarrow>
   count_areas df failed ac =
     Inr (fold (\<lambda>area area_counts. count_area area_counts area)
            (map Area (failed_rows df failed)) ac)"
  by (induction failed arbitrary: ac) (simp_all add: iloc_def getitem_def failed_rows_def)

lemma print_solutions_eq:
  "print_solutions r [1..<4] c =
     Inr (c\<lparr>stdout := stdout c @
       [''  1. '' @ str_cell (Solution_1 r),
        ''  2. '' @ str_cell (Solution_2 r),
        ''  3. '' @ str_cell (Solution_3 r)]\<rparr>)"
proof -
  have "[1..<4] = [1, 2, 3 :: nat]"
    by (simp add: upt_rec)
  then show ?thesis
    by (simp add: row_get_def digit_def print_line_def)
qed

lemma print_exercises_eq:
  "\<forall>i \<in> set is. i < length failed \<Longrightarrow> \<forall>idx \<in> set failed. idx < length df \<Longrightarrow>
   print_exercises df failed is c =
     Inr (c\<lparr>stdout := stdout c
            @ concat (map (\<lambda>i. exercise_block (df ! (failed ! i))) is)\<rparr>)"
proof (induction "is" arbitrary: c)
  case Nil
  then show ?case by simp
next
  case (Cons i "is")
  then have "failed ! i < length df" by simp
  with Cons show ?case
    by (simp add: getitem_def iloc_def print_solutions_eq [unfolded One_nat_def]
          exercise_block_def print_line_def del: print_solutions.simps)
qed

lemma map_nth_upt_take:
  "n \<le> length xs \<Longrightarrow> map (\<lambda>i. f (xs ! i)) [0..<n] = map f (take n xs)"
  by (rule nth_equalityI) simp_all

lemma empty_tips:
  "fold (\<lambda>lift tips. tips(lift \<mapsto> [])) lifts m =
     (\<lambda>l. if l \<in> set lifts then Some [] else m l)"
  by (induction lifts arbitrary: m) (auto simp: fun_eq_iff)

lemma lift_areas_single:
  "LIFT_SPECIFIC_TESTS lift = Some tests \<Longrightarrow> lift_areas [lift] = set tests"
  by (simp add: lift_areas_def)

lemma attribute_tip_Cons:
  "attribute_tip area advice (lift # lifts) tips =
     (case LIFT_SPECIFIC_TESTS lift of
        None \<Rightarrow> Inl KeyError
      | Some tests \<Rightarrow>
          if cell_in area (set tests) then
            (case tips lift of
               None \<Rightarrow> Inl KeyError
             | Some ts \<Rightarrow>
                 attribute_tip area advice lifts (tips(lift \<mapsto> ts @ [tip_text area advice])))
          else attribute_tip area advice lifts tips)"
  unfolding tip_text_def by (rule attribute_tip.simps)

lemma attribute_tip_eq:
  "distinct lifts \<Longrightarrow> set lifts \<subseteq> dom LIFT_SPECIFIC_TESTS \<Longrightarrow> set lifts \<subseteq> dom tips \<Longrightarrow>
   attribute_tip area advice lifts tips =
     Inr (\<lambda>l. if l \<in> set lifts \<and> cell_in area (lift_areas [l])
               then map_option (\<lambda>ts. ts @ [tip_text area advice]) (tips l)
               else tips l)"
proof (induction lifts arbitrary: tips)
  case Nil
  then show ?case by simp
next
  case (Cons lift lifts)
  then obtain tests ts where t: "LIFT_SPECIFIC_TESTS lift = Some tests" "tips lift = Some ts"
    by auto
  show ?case
  proof (cases "cell_in area (set tests)")
    case True
    define tips1 where "tips1 = tips(lift \<mapsto> ts @ [tip_text area advice])"
    have "set lifts \<subseteq> dom tips1"
      using Cons.prems by (auto simp: tips1_def)
    with Cons have IH: "attribute_tip area advice lifts tips1 =
       Inr (\<lambda>l. if l \<in> set lifts \<and> cell_in area (lift_areas [l])
               then map_option (\<lambda>ts. ts @ [tip_text area advice]) (tips1 l)
               else tips1 l)"
      by simp
    have eq: "(\<lambda>l. if l \<in> set lifts \<and> cell_in area (lift_areas [l])
               then map_option (\<lambda>ts. ts @ [tip_text area advice]) (tips1 l)
               else tips1 l) =
         (\<lambda>l. if l \<in> set (lift # lifts) \<and> cell_in area (lift_areas [l])
               then map_option (\<lambda>ts. ts @ [tip_text area advice]) (tips l)
               else tips l)"
    proof (rule ext)
      fix l
      show "(if l \<in> set lifts \<and> cell_in area (lift_areas [l])
               then map_option (\<lambda>ts. ts @ [tip_text area advice]) (tips1 l)
               else tips1 l) =
         (if l \<in> set (lift # lifts) \<and> cell_in area (lift_areas [l])
               then map_option (\<lambda>ts. ts @ [tip_text area advice]) (tips l)
               else tips l)"
        using Cons.prems(1) t True by (cases "l = lift") (auto simp: tips1_def lift_areas_single)
    qed
    have "attribute_tip area advice (lift # lifts) tips = attribute_tip area advice lifts tips1"
      using t True by (simp only: attribute_tip_Cons tips1_def option.case if_True)
    then show ?thesis
      by (simp only: IH eq)
  next
    case False
    have eq: "(\<lambda>l. if l \<in> set lifts \<and> cell_in area (lift_areas [l])
               then map_option (\<lambda>ts. ts @ [tip_text area advice]) (tips l)
               else tips l) =
         (\<lambda>l. if l \<in> set (lift # lifts) \<and> cell_in area (lift_areas [l])
               then map_option (\<lambda>ts. ts @ [tip_text area advice]) (tips l)
               else tips l)"
    proof (rule ext)
      fix l
      show "(if l \<in> set lifts \<and> cell_in area (lift_areas [l])
               then map_option (\<lambda>ts. ts @ [tip_text area advice]) (tips l)
               else tips l) =
         (if l \<in> set (lift # lifts) \<and> cell_in area (lift_areas [l])
               then map_option (\<lambda>ts. ts @ [tip_text area advice]) (tips l)
               else tips l)"
        using t False by (cases "l = lift") (auto simp: lift_areas_single)
    qed
    have "attribute_tip area advice (lift # lifts) tips = attribute_tip area advice lifts tips"
      using t False by (simp only: attribute_tip_Cons option.case if_False)
    moreover have "attribute_tip area advice lifts tips =
       Inr (\<lambda>l. if l \<in> set lifts \<and> cell_in area (lift_areas [l])
               then map_option (\<lambda>ts. ts @ [tip_text area advice]) (tips l)
               else tips l)"
      using Cons by simp
    ultimately show ?thesis
      by (simp only: eq)
  qed
qed

lemma lift_tips_Nil: "lift_tips [] l = []"
  by (simp add: lift_tips_def)

lemma lift_tips_Cons:
  "lift_tips (r # rows) l =
     (if notna (Solution_4 r) \<and> cell_in (Area r) (lift_areas [l])
      then [tip_text (Area r) (Solution_4 r)] else [])
     @ lift_tips rows l"
  by (simp add: lift_tips_def)

lemma collect_tips_Cons:
  "idx < length df \<Longrightarrow>
   collect_tips df (idx # idxs) lifts tips =
     (if notna (Solution_4 (df ! idx)) then
        (case attribute_tip (Area (df ! idx)) (Solution_4 (df ! idx)) lifts tips of
           Inl e \<Rightarrow> Inl e
         | Inr tips' \<Rightarrow> collect_tips df idxs lifts tips')
      else collect_tips df idxs lifts tips)"
  by (simp add: iloc_def getitem_def)

lemma collect_tips_eq:
  "\<forall>idx \<in> set failed. idx < length df \<Longrightarrow>
   distinct lifts \<Longrightarrow> set lifts \<subseteq> dom LIFT_SPECIFIC_TESTS \<Longrightarrow> set lifts \<subseteq> dom tips \<Longrightarrow>
   collect_tips df failed lifts tips =
     Inr (\<lambda>l. if l \<in> set lifts
               then map_option (\<lambda>ts. ts @ lift_tips (failed_rows df failed) l) (tips l)
               else tips l)"
proof (induction failed arbitrary: tips)
  case Nil
  have "(\<lambda>l. if l \<in> set lifts
               then map_option (\<lambda>ts. ts @ lift_tips (failed_rows df []) l) (tips l)
               else tips l) = tips"
    by (rule ext) (simp add: failed_rows_def lift_tips_Nil option.map_ident)
  then show ?case by simp
next
  case (Cons idx failed)
  define r where "r = df ! idx"
  have step: "collect_tips df (idx # failed) lifts tips =
     (if notna (Solution_4 r) then
        (case attribute_tip (Area r) (Solution_4 r) lifts tips of
           Inl e \<Rightarrow> Inl e
         | Inr tips' \<Rightarrow> collect_tips df failed lifts tips')
      else collect_tips df failed lifts tips)"
    unfolding r_def using Cons.prems(1) by (intro collect_tips_Cons) simp
  have rows: "failed_rows df (idx # failed) = r # failed_rows df failed"
    by (simp add: failed_rows_def r_def)
  have idxs: "\<forall>idx \<in> set failed. idx < length df"
    using Cons.prems(1) by simp
  show ?case
  proof (cases "notna (Solution_4 r)")
    case True
    define tips1 where "tips1 =
       (\<lambda>l. if l \<in> set lifts \<and> cell_in (Area r) (lift_areas [l])
               then map_option (\<lambda>ts. ts @ [tip_text (Area r) (Solution_4 r)]) (tips l)
               else tips l)"
    have a: "attribute_tip (Area r) (Solution_4 r) lifts tips = Inr tips1"
      unfolding tips1_def using Cons.prems(2,3,4) by (rule attribute_tip_eq)
    have "set lifts \<subseteq> dom tips1"
      using Cons.prems(4) by (auto simp: tips1_def split: if_splits)
    with idxs Cons.prems(2,3) have IH: "collect_tips df failed lifts tips1 =
       Inr (\<lambda>l. if l \<in> set lifts
               then map_option (\<lambda>ts. ts @ lift_tips (failed_rows df failed) l) (tips1 l)
               else tips1 l)"
      by (rule Cons.IH)
    have eq: "(\<lambda>l. if l \<in> set lifts
               then map_option (\<lambda>ts. ts @ lift_tips (failed_rows df failed) l) (tips1 l)
               else tips1 l) =
        (\<lambda>l. if l \<in> set lifts
               then map_option (\<lambda>ts. ts @ lift_tips (failed_rows df (idx # failed)) l) (tips l)
               else tips l)"
    proof (rule ext)
      fix l
      show "(if l \<in> set lifts
               then map_option (\<lambda>ts. ts @ lift_tips (failed_rows df failed) l) (tips1 l)
               else tips1 l) =
        (if l \<in> set lifts
               then map_option (\<lambda>ts. ts @ lift_tips (failed_rows df (idx # failed)) l) (tips l)
               else tips l)"
        using True unfolding rows lift_tips_Cons tips1_def
        by (cases "tips l") auto
    qed
    have "collect_tips df (idx # failed) lifts tips = collect_tips df failed lifts tips1"
      using True by (simp only: step a if_True sum.case)
    then show ?thesis
      by (simp only: IH eq)
  next
    case False
    have f1: "lift_tips (failed_rows df (idx # failed)) = lift_tips (failed_rows df failed)"
      using False by (auto simp: rows lift_tips_Cons fun_eq_iff)
    have f2: "collect_tips df (idx # failed) lifts tips = collect_tips df failed lifts tips"
      using False by (simp only: step if_False)
    have f3: "collect_tips df failed lifts tips =
       Inr (\<lambda>l. if l \<in> set lifts
               then map_option (\<lambda>ts. ts @ lift_tips (failed_rows df failed) l) (tips l)
               else tips l)"
      using idxs Cons.prems(2,3,4) by (rule Cons.IH)
    show ?thesis
      by (simp only: f1 f2 f3)
  qed
qed

lemma print_tips_eq:
  "set lifts \<subseteq> dom tips \<Longrightarrow>
   print_tips lifts tips c =
     Inr (c\<lparr>stdout := stdout c
            @ concat (map (\<lambda>l. case tips l of
                                 None \<Rightarrow> []
                               | Some ts \<Rightarrow>
                                   if ts \<noteq> [] then (''\<newline>For '' @ l @ '':'') # ts else [])
                        lifts)\<rparr>)"
proof (induction lifts arbitrary: c)
  case Nil
  then show ?case by simp
next
  case (Cons lift lifts)
  then obtain ts where "tips lift = Some ts" by auto
  with Cons show ?case
    by (simp add: print_lines_eq print_line_def)
qed

lemma print_issues_eq:
  "fold (\<lambda>(area, count). print_line (f area)) xs c =
     c\<lparr>stdout := stdout c @ map f (map fst xs)\<rparr>"
  by (induction xs arbitrary: c) (auto simp: print_line_def)

lemma customized_plan:
  assumes "failed \<noteq> []"
    and "\<forall>idx \<in> set failed. idx < length df"
    and "distinct lifts"
    and "set lifts \<subseteq> dom LIFT_SPECIFIC_TESTS"
  shows "generate_warmup_plan df failed lifts c =
     Inr (c\<lparr>stdout := stdout c
       @ plan_opening
       @ issue_lines (failed_rows df failed)
       @ exercise_lines (failed_rows df failed)
       @ concat (map (progression_lines ''3'') lifts)
       @ notes_heading lifts
       @ concat (map (lift_notes (failed_rows df failed)) lifts)\<rparr>)"
proof -
  let ?rows = "failed_rows df failed"
  have counts: "count_areas df failed [] = Inr (tally (map Area ?rows))"
    using assms(2) by (simp add: count_areas_eq tally_def)
  have exercises: "\<And>c. print_exercises df failed [0..<min 5 (length failed)] c =
       Inr (c\<lparr>stdout := stdout c @ concat (map exercise_block (take 5 ?rows))\<rparr>)"
  proof -
    fix c
    have "map (\<lambda>i. exercise_block (df ! (failed ! i))) [0..<min 5 (length failed)] =
          map (\<lambda>idx. exercise_block (df ! idx)) (take (min 5 (length failed)) failed)"
      by (rule map_nth_upt_take) simp
    also have "\<dots> = map exercise_block (take 5 ?rows)"
      by (cases "5 \<le> length failed") (simp_all add: failed_rows_def take_map min_def)
    finally show "print_exercises df failed [0..<min 5 (length failed)] c =
       Inr (c\<lparr>stdout := stdout c @ concat (map exercise_block (take 5 ?rows))\<rparr>)"
      using assms(2) by (simp add: print_exercises_eq)
  qed
  let ?empty = "fold (\<lambda>lift tips. tips(lift \<mapsto> [])) lifts Map.empty"
  have dom0: "set lifts \<subseteq> dom ?empty"
    by (auto simp: empty_tips)
  let ?tips = "\<lambda>l. if l \<in> set lifts then Some (lift_tips ?rows l) else None"
  have "collect_tips df failed lifts ?empty =
      Inr (\<lambda>l. if l \<in> set lifts
               then map_option (\<lambda>ts. ts @ lift_tips ?rows l) (?empty l)
               else ?empty l)"
    using assms(2,3,4) dom0 by (rule collect_tips_eq)
  moreover have "(\<lambda>l. if l \<in> set lifts
               then map_option (\<lambda>ts. ts @ lift_tips ?rows l) (?empty l)
               else ?empty l) = ?tips"
    by (rule ext) (simp add: empty_tips)
  ultimately have tips: "collect_tips df failed lifts ?empty = Inr ?tips"
    by (simp only:)
  have tipnotes: "\<And>c. print_tips lifts ?tips c =
       Inr (c\<lparr>stdout := stdout c @ concat (map (lift_notes ?rows) lifts)\<rparr>)"
  proof -
    fix c
    have "set lifts \<subseteq> dom ?tips" by auto
    then have "print_tips lifts ?tips c =
       Inr (c\<lparr>stdout := stdout c
            @ concat (map (\<lambda>l. case ?tips l of
                                 None \<Rightarrow> []
                               | Some ts \<Rightarrow>
                                   if ts \<noteq> [] then (''\<newline>For '' @ l @ '':'') # ts else [])
                        lifts)\<rparr>)"
      by (rule print_tips_eq)
    moreover have "map (\<lambda>l. case ?tips l of
                                 None \<Rightarrow> []
                               | Some ts \<Rightarrow>
                                   if ts \<noteq> [] then (''\<newline>For '' @ l @ '':'') # ts else [])
                        lifts = map (lift_notes ?rows) lifts"
      by (simp add: lift_notes_def)
    ultimately show "print_tips lifts ?tips c =
       Inr (c\<lparr>stdout := stdout c @ concat (map (lift_notes ?rows) lifts)\<rparr>)"
      by simp
  qed
  show ?thesis
    unfolding generate_warmup_plan_def
    by (simp add: assms(1) counts Let_def print_lines_eq print_issues_eq exercises
          print_progressions_eq tips tipnotes)
       (simp add: print_line_def plan_opening_def issue_lines_def issue_list_def
          exercise_lines_def notes_heading_def ranked_areas_def)
qed

section \<open>The claims about the customized plan\<close>

lemma customized_plan_valid:
  assumes "failed_indices \<noteq> []"
    and "\<forall>idx \<in> set failed_indices. idx < length assessment_data"
    and "distinct selected_lifts"
    and "set selected_lifts \<subseteq> {''squat'', ''bench'', ''deadlift''}"
  shows "generate_warmup_plan assessment_data failed_indices selected_lifts c =
     Inr (c\<lparr>stdout := stdout c
       @ plan_opening
       @ issue_list (ranked_areas (map Area (failed_rows assessment_data failed_indices)))
       @ exercise_lines (failed_rows assessment_data failed_indices)
       @ concat (map (progression_lines ''3'') selected_lifts)
       @ notes_heading selected_lifts
       @ concat (map (lift_notes (failed_rows assessment_data failed_indices)) selected_lifts)\<rparr>)"
proof -
  from assms(4) have "set selected_lifts \<subseteq> dom LIFT_SPECIFIC_TESTS"
    by (simp only: dom_LIFT_SPECIFIC_TESTS)
  with assms(1,2,3) show ?thesis
    unfolding issue_lines_def [symmetric] by (rule customized_plan)
qed

text \<open>
  The theorems on the other sections of the plan give the list of top issues as the
  ranking only where every failed row has a text as its Area; this reads the ranking off
  such a theorem.
\<close>

lemma when_areas_are_texts:
  assumes "\<exists>ranked. set ranked = S \<and> (T \<longrightarrow> ranked = R) \<and> Q ranked" and "T"
  shows "Q R"
  using assms by auto

text \<open>
  Claim C3. In the customized plan, when the failed rows have texts as their areas (the
  assessment loop fails no other row, see \<open>assessment_loop\<close>), the lines under the
  heading of the top issues are the distinct areas of the failed rows, each once, in this
  order: an area with more failed rows comes before one with fewer, and of two areas with
  the same number the one that occurs first in the failure list comes first. For the
  failures Hip Flexion, Lat Flexibility, Hip Flexion the list is Hip Flexion, then Lat
  Flexibility (the example after the theorem).
\<close>

theorem top_issues_ranking:
  assumes "failed_indices \<noteq> []"
    and "\<forall>idx \<in> set failed_indices. idx < length assessment_data"
    and "distinct selected_lifts"
    and "set selected_lifts \<subseteq> {''squat'', ''bench'', ''deadlift''}"
    and "rows = failed_rows assessment_data failed_indices"
    and "areas = map Area rows"
    and "\<forall>r \<in> set rows. notna (Area r)"
  shows "generate_warmup_plan assessment_data failed_indices selected_lifts c =
     Inr (c\<lparr>stdout := stdout c
       @ plan_opening
       @ [''\<newline>Your top issues are in these areas (prioritized):'']
       @ map (\<lambda>area. ''- '' @ str_cell area) (ranked_areas areas)
       @ exercise_lines rows
       @ concat (map (progression_lines ''3'') selected_lifts)
       @ notes_heading selected_lifts
       @ concat (map (lift_notes rows) selected_lifts)\<rparr>)
   \<and> distinct (ranked_areas areas)
   \<and> set (ranked_areas areas) = set areas
   \<and> sorted_wrt (\<lambda>a b. count_list areas b < count_list areas a
          \<or> (count_list areas a = count_list areas b
              \<and> first_index areas a < first_index areas b))
        (ranked_areas areas)"
proof -
  from assms(4) have "set selected_lifts \<subseteq> dom LIFT_SPECIFIC_TESTS"
    by (simp only: dom_LIFT_SPECIFIC_TESTS)
  with assms(1,2,3) have "generate_warmup_plan assessment_data failed_indices selected_lifts c =
     Inr (c\<lparr>stdout := stdout c
       @ plan_opening
       @ issue_lines (failed_rows assessment_data failed_indices)
       @ exercise_lines (failed_rows assessment_data failed_indices)
       @ concat (map (progression_lines ''3'') selected_lifts)
       @ notes_heading selected_lifts
       @ concat (map (lift_notes (failed_rows assessment_data failed_indices)) selected_lifts)\<rparr>)"
    by (rule customized_plan)
  moreover have texts: "\<forall>a \<in> set areas. notna a"
    using assms(7) by (simp add: assms(6))
  ultimately show ?thesis
    using ranked_areas_distinct [OF texts] ranked_areas_set [of areas]
      ranked_areas_sorted [OF texts]
    by (simp add: assms(5,6) issue_lines_def issue_list_def)
qed

theorem top_issues_ranking_witness:
  "[0, 1, 2] \<noteq> ([] :: nat list)
   \<and> distinct [''squat'']
   \<and> map Area (failed_rows hips_and_lats [0, 1, 2])
       = [Some ''Hip Flexion'', Some ''Lat Flexibility'', Some ''Hip Flexion'']
   \<and> ranked_areas (map Area (failed_rows hips_and_lats [0, 1, 2]))
       = [Some ''Hip Flexion'', Some ''Lat Flexibility'']
   \<and> generate_warmup_plan hips_and_lats [0, 1, 2] [''squat''] \<lparr>stdin = [], stdout = []\<rparr> =
     Inr \<lparr>stdin = [],
          stdout = plan_opening
       @ [''\<newline>Your top issues are in these areas (prioritized):'',
          ''- Hip Flexion'',
          ''- Lat Flexibility'']
       @ exercise_lines (failed_rows hips_and_lats [0, 1, 2])
       @ progression_lines ''3'' ''squat''
       @ notes_heading [''squat'']
       @ lift_notes (failed_rows hips_and_lats [0, 1, 2]) ''squat''\<rparr>"
proof -
  let ?rows = "failed_rows hips_and_lats [0, 1, 2]"
  have h1: "[0, 1, 2] \<noteq> ([] :: nat list)" by simp
  have h2: "\<forall>idx \<in> set [0, 1, 2]. idx < length hips_and_lats"
    by (simp add: hips_and_lats_def)
  have h3: "distinct [''squat'']" by simp
  have h4: "set [''squat''] \<subseteq> {''squat'', ''bench'', ''deadlift''}" by simp
  have areas: "map Area ?rows
       = [Some ''Hip Flexion'', Some ''Lat Flexibility'', Some ''Hip Flexion'']"
    by (simp add: failed_rows_def hips_and_lats_def example_row_def)
  have ranked: "ranked_areas [Some ''Hip Flexion'', Some ''Lat Flexibility'', Some ''Hip Flexion'']
       = [Some ''Hip Flexion'', Some ''Lat Flexibility'']"
    by (simp add: ranked_areas_def tally_def sorted_reverse_def)
  have texts: "\<forall>r \<in> set ?rows. notna (Area r)"
    by (simp add: failed_rows_def hips_and_lats_def example_row_def)
  from top_issues_ranking [OF h1 h2 h3 h4 refl areas [symmetric] texts,
      of "\<lparr>stdin = [], stdout = []\<rparr>"]
  have "generate_warmup_plan hips_and_lats [0, 1, 2] [''squat''] \<lparr>stdin = [], stdout = []\<rparr> =
     Inr \<lparr>stdin = [],
          stdout = plan_opening
       @ [''\<newline>Your top issues are in these areas (prioritized):'',
          ''- Hip Flexion'',
          ''- Lat Flexibility'']
       @ exercise_lines ?rows
       @ progression_lines ''3'' ''squat''
       @ notes_heading [''squat'']
       @ lift_notes ?rows ''squat''\<rparr>"
    by (simp add: ranked)
  with h1 h3 areas ranked show ?thesis
    by (simp only: simp_thms)
qed

text \<open>
  Claim C4. For a failure list that is not empty, the section of corrective exercises
  holds one block for each of the first five failed rows, fewer when fewer failed, so
  \<open>min 5 n\<close> blocks for \<open>n\<close> failures, in the order of the failure list and not in
  that of the top issues. A block is the heading with the area and the test of the row,
  then its first three solutions numbered 1 to 3. Seven failed rows give five blocks
  (the example after the theorem). The list of top issues before the section names the
  areas of the failed rows, and is their ranking when these areas are texts.
\<close>

theorem corrective_exercise_blocks:
  assumes "failed_indices \<noteq> []"
    and "\<forall>idx \<in> set failed_indices. idx < length assessment_data"
    and "distinct selected_lifts"
    and "set selected_lifts \<subseteq> {''squat'', ''bench'', ''deadlift''}"
    and "rows = failed_rows assessment_data failed_indices"
  shows "\<exists>ranked.
     set ranked = set (map Area rows)
   \<and> ((\<forall>r \<in> set rows. notna (Area r)) \<longrightarrow> ranked = ranked_areas (map Area rows))
   \<and> generate_warmup_plan assessment_data failed_indices selected_lifts c =
     Inr (c\<lparr>stdout := stdout c
       @ plan_opening
       @ issue_list ranked
       @ [''\<newline>Perform these corrective exercises:'']
       @ concat (map (\<lambda>r.
           [''\<newline>-- '' @ str_cell (Area r) @ '': '' @ str_cell (Test r) @ '' --'',
            ''  1. '' @ str_cell (Solution_1 r),
            ''  2. '' @ str_cell (Solution_2 r),
            ''  3. '' @ str_cell (Solution_3 r)]) (take 5 rows))
       @ concat (map (progression_lines ''3'') selected_lifts)
       @ notes_heading selected_lifts
       @ concat (map (lift_notes rows) selected_lifts)\<rparr>)
   \<and> take 5 rows = map (\<lambda>idx. assessment_data ! idx) (take 5 failed_indices)
   \<and> length (take 5 rows) = min 5 (length failed_indices)"
    (is "\<exists>ranked. ?plan ranked")
proof -
  have "exercise_lines rows =
     [''\<newline>Perform these corrective exercises:'']
       @ concat (map (\<lambda>r.
           [''\<newline>-- '' @ str_cell (Area r) @ '': '' @ str_cell (Test r) @ '' --'',
            ''  1. '' @ str_cell (Solution_1 r),
            ''  2. '' @ str_cell (Solution_2 r),
            ''  3. '' @ str_cell (Solution_3 r)]) (take 5 rows))"
    by (simp add: exercise_lines_def exercise_block_def [abs_def])
  moreover have "take 5 rows = map (\<lambda>idx. assessment_data ! idx) (take 5 failed_indices)"
    by (simp add: assms(5) failed_rows_def take_map)
  moreover have "length (take 5 rows) = min 5 (length failed_indices)"
    by (simp add: assms(5) failed_rows_def min.commute)
  ultimately have main:
    "generate_warmup_plan assessment_data failed_indices selected_lifts c =
       Inr (c\<lparr>stdout := stdout c
         @ plan_opening
         @ issue_list (ranked_areas (map Area rows))
         @ [''\<newline>Perform these corrective exercises:'']
         @ concat (map (\<lambda>r.
             [''\<newline>-- '' @ str_cell (Area r) @ '': '' @ str_cell (Test r) @ '' --'',
              ''  1. '' @ str_cell (Solution_1 r),
              ''  2. '' @ str_cell (Solution_2 r),
              ''  3. '' @ str_cell (Solution_3 r)]) (take 5 rows))
         @ concat (map (progression_lines ''3'') selected_lifts)
         @ notes_heading selected_lifts
         @ concat (map (lift_notes rows) selected_lifts)\<rparr>)
     \<and> take 5 rows = map (\<lambda>idx. assessment_data ! idx) (take 5 failed_indices)
     \<and> length (take 5 rows) = min 5 (length failed_indices)"
    using customized_plan_valid [OF assms(1-4), of c]
    by (simp only: assms(5) simp_thms append_assoc)
  have ranked: "?plan (ranked_areas (map Area rows))"
    by (rule conjI [OF ranked_areas_set conjI [OF impI [OF refl] main]])
  show ?thesis
    by (rule exI [of "?plan" "ranked_areas (map Area rows)", OF ranked])
qed

theorem corrective_exercise_blocks_witness:
  "[0, 1, 2, 3, 4, 5, 6] \<noteq> ([] :: nat list)
   \<and> distinct [''squat'']
   \<and> length (failed_rows seven_tests [0, 1, 2, 3, 4, 5, 6]) = 7
   \<and> generate_warmup_plan seven_tests [0, 1, 2, 3, 4, 5, 6] [''squat'']
        \<lparr>stdin = [], stdout = []\<rparr> =
     Inr \<lparr>stdin = [],
          stdout = plan_opening
       @ issue_lines (failed_rows seven_tests [0, 1, 2, 3, 4, 5, 6])
       @ [''\<newline>Perform these corrective exercises:'',
          ''\<newline>-- Ankle Mobility: Knee to wall --'', ''  1. one'', ''  2. nan'', ''  3. three'',
          ''\<newline>-- Hip Flexion: Lunge --'', ''  1. one'', ''  2. nan'', ''  3. three'',
          ''\<newline>-- Hip Internal Rotation: Seated turn in --'',
          ''  1. one'', ''  2. nan'', ''  3. three'',
          ''\<newline>-- Hip External Rotation: Seated turn out --'',
          ''  1. one'', ''  2. nan'', ''  3. three'',
          ''\<newline>-- Thoracic Extension: Wall slide --'', ''  1. one'', ''  2. nan'', ''  3. three'']
       @ progression_lines ''3'' ''squat''
       @ notes_heading [''squat'']
       @ lift_notes (failed_rows seven_tests [0, 1, 2, 3, 4, 5, 6]) ''squat''\<rparr>"
proof -
  let ?failed = "[0, 1, 2, 3, 4, 5, 6] :: nat list"
  have h1: "?failed \<noteq> []" by simp
  have h2: "\<forall>idx \<in> set ?failed. idx < length seven_tests"
    by (simp add: seven_tests_def)
  have h3: "distinct [''squat'']" by simp
  have h4: "set [''squat''] \<subseteq> {''squat'', ''bench'', ''deadlift''}" by simp
  have len: "length (failed_rows seven_tests ?failed) = 7"
    by (simp add: failed_rows_def)
  have first5: "take 5 (failed_rows seven_tests ?failed) =
     [example_row ''Ankle Mobility'' ''Knee to wall'' None,
      example_row ''Hip Flexion'' ''Lunge'' None,
      example_row ''Hip Internal Rotation'' ''Seated turn in'' None,
      example_row ''Hip External Rotation'' ''Seated turn out'' None,
      example_row ''Thoracic Extension'' ''Wall slide'' None]"
    by (simp add: failed_rows_def seven_tests_def)
  have texts: "\<forall>r \<in> set (failed_rows seven_tests ?failed). notna (Area r)"
    by (simp add: failed_rows_def seven_tests_def example_row_def)
  from when_areas_are_texts
    [OF corrective_exercise_blocks [OF h1 h2 h3 h4 refl, of "\<lparr>stdin = [], stdout = []\<rparr>"] texts,
     folded issue_lines_def]
  have "generate_warmup_plan seven_tests ?failed [''squat''] \<lparr>stdin = [], stdout = []\<rparr> =
     Inr \<lparr>stdin = [],
          stdout = plan_opening
       @ issue_lines (failed_rows seven_tests ?failed)
       @ [''\<newline>Perform these corrective exercises:'',
          ''\<newline>-- Ankle Mobility: Knee to wall --'', ''  1. one'', ''  2. nan'', ''  3. three'',
          ''\<newline>-- Hip Flexion: Lunge --'', ''  1. one'', ''  2. nan'', ''  3. three'',
          ''\<newline>-- Hip Internal Rotation: Seated turn in --'',
          ''  1. one'', ''  2. nan'', ''  3. three'',
          ''\<newline>-- Hip External Rotation: Seated turn out --'',
          ''  1. one'', ''  2. nan'', ''  3. three'',
          ''\<newline>-- Thoracic Extension: Wall slide --'', ''  1. one'', ''  2. nan'', ''  3. three'']
       @ progression_lines ''3'' ''squat''
       @ notes_heading [''squat'']
       @ lift_notes (failed_rows seven_tests ?failed) ''squat''\<rparr>"
    unfolding first5 by (simp add: example_row_def)
  with h1 h3 len show ?thesis
    by (simp only: simp_thms)
qed

text \<open>
  Claim C5. The implementation notes end with one part for each selected lift, in the
  order of the selection. The part of a lift holds the tip of every failed row that has
  a fourth solution and whose area the lift lists in \<open>LIFT_SPECIFIC_TESTS\<close>, so a tip
  is repeated under every selected lift that lists the area; a lift with no such row has
  no part at all, not even its heading. The list of top issues names the areas of the
  failed rows, and is their ranking when these areas are texts.
\<close>

theorem implementation_tips:
  assumes "failed_indices \<noteq> []"
    and "\<forall>idx \<in> set failed_indices. idx < length assessment_data"
    and "distinct selected_lifts"
    and "set selected_lifts \<subseteq> {''squat'', ''bench'', ''deadlift''}"
    and "rows = failed_rows assessment_data failed_indices"
  shows "\<exists>ranked.
     set ranked = set (map Area rows)
   \<and> ((\<forall>r \<in> set rows. notna (Area r)) \<longrightarrow> ranked = ranked_areas (map Area rows))
   \<and> generate_warmup_plan assessment_data failed_indices selected_lifts c =
     Inr (c\<lparr>stdout := stdout c
       @ plan_opening
       @ issue_list ranked
       @ exercise_lines rows
       @ concat (map (progression_lines ''3'') selected_lifts)
       @ notes_heading selected_lifts
       @ concat (map (\<lambda>lift.
           let tips = [''- '' @ str_cell (Area r) @ '': '' @ str_cell (Solution_4 r).
                         r \<leftarrow> rows, notna (Solution_4 r),
                         cell_in (Area r) (lift_areas [lift])]
           in if tips = [] then [] else (''\<newline>For '' @ lift @ '':'') # tips)
         selected_lifts)\<rparr>)"
    (is "\<exists>ranked. ?plan ranked")
proof -
  have "lift_notes rows =
      (\<lambda>lift.
           let tips = [''- '' @ str_cell (Area r) @ '': '' @ str_cell (Solution_4 r).
                         r \<leftarrow> rows, notna (Solution_4 r),
                         cell_in (Area r) (lift_areas [lift])]
           in if tips = [] then [] else (''\<newline>For '' @ lift @ '':'') # tips)"
    unfolding lift_notes_def lift_tips_def tip_text_def Let_def by (rule refl)
  then have main:
    "generate_warmup_plan assessment_data failed_indices selected_lifts c =
       Inr (c\<lparr>stdout := stdout c
         @ plan_opening
         @ issue_list (ranked_areas (map Area rows))
         @ exercise_lines rows
         @ concat (map (progression_lines ''3'') selected_lifts)
         @ notes_heading selected_lifts
         @ concat (map (\<lambda>lift.
             let tips = [''- '' @ str_cell (Area r) @ '': '' @ str_cell (Solution_4 r).
                           r \<leftarrow> rows, notna (Solution_4 r),
                           cell_in (Area r) (lift_areas [lift])]
             in if tips = [] then [] else (''\<newline>For '' @ lift @ '':'') # tips)
           selected_lifts)\<rparr>)"
    using customized_plan_valid [OF assms(1-4), of c] by (simp only: assms(5))
  have ranked: "?plan (ranked_areas (map Area rows))"
    by (rule conjI [OF ranked_areas_set conjI [OF impI [OF refl] main]])
  show ?thesis
    by (rule exI [of "?plan" "ranked_areas (map Area rows)", OF ranked])
qed

theorem implementation_tips_witness:
  "[0, 1, 2] \<noteq> ([] :: nat list)
   \<and> distinct [''squat'', ''bench'', ''deadlift'']
   \<and> generate_warmup_plan bench_day [0, 1, 2] [''squat'', ''bench'', ''deadlift'']
        \<lparr>stdin = [], stdout = []\<rparr> =
     Inr \<lparr>stdin = [],
          stdout = plan_opening
       @ issue_lines (failed_rows bench_day [0, 1, 2])
       @ exercise_lines (failed_rows bench_day [0, 1, 2])
       @ progression_lines ''3'' ''squat''
       @ progression_lines ''3'' ''bench''
       @ progression_lines ''3'' ''deadlift''
       @ notes_heading [''squat'', ''bench'', ''deadlift'']
       @ [''\<newline>For bench:'',
          ''- Wrist Mobility: Use wrist wraps'',
          ''- Bench Setup: Set the shoulder blades'',
          ''\<newline>For deadlift:'',
          ''- Wrist Mobility: Use wrist wraps'']\<rparr>"
proof -
  let ?lifts = "[''squat'', ''bench'', ''deadlift'']"
  have h1: "[0, 1, 2] \<noteq> ([] :: nat list)" by simp
  have h2: "\<forall>idx \<in> set [0, 1, 2]. idx < length bench_day"
    by (simp add: bench_day_def)
  have h3: "distinct ?lifts" by simp
  have h4: "set ?lifts \<subseteq> {''squat'', ''bench'', ''deadlift''}" by simp
  have rows: "failed_rows bench_day [0, 1, 2] = bench_day"
    by (simp add: failed_rows_def bench_day_def)
  have areas: "lift_areas [''squat''] = set (the (LIFT_SPECIFIC_TESTS ''squat''))"
    "lift_areas [''bench''] = set (the (LIFT_SPECIFIC_TESTS ''bench''))"
    "lift_areas [''deadlift''] = set (the (LIFT_SPECIFIC_TESTS ''deadlift''))"
    by (simp_all add: lift_areas_def LIFT_SPECIFIC_TESTS_def)
  have tips: "concat (map (\<lambda>lift.
           let tips = [''- '' @ str_cell (Area r) @ '': '' @ str_cell (Solution_4 r).
                         r \<leftarrow> bench_day, notna (Solution_4 r),
                         cell_in (Area r) (lift_areas [lift])]
           in if tips = [] then [] else (''\<newline>For '' @ lift @ '':'') # tips) ?lifts) =
       [''\<newline>For bench:'',
          ''- Wrist Mobility: Use wrist wraps'',
          ''- Bench Setup: Set the shoulder blades'',
          ''\<newline>For deadlift:'',
          ''- Wrist Mobility: Use wrist wraps'']"
    by (simp add: areas LIFT_SPECIFIC_TESTS_def bench_day_def example_row_def)
  have texts: "\<forall>r \<in> set (failed_rows bench_day [0, 1, 2]). notna (Area r)"
    by (simp add: failed_rows_def bench_day_def example_row_def)
  from when_areas_are_texts
    [OF implementation_tips [OF h1 h2 h3 h4 refl, of "\<lparr>stdin = [], stdout = []\<rparr>"] texts,
     folded issue_lines_def]
  have "generate_warmup_plan bench_day [0, 1, 2] ?lifts \<lparr>stdin = [], stdout = []\<rparr> =
     Inr \<lparr>stdin = [],
          stdout = plan_opening
       @ issue_lines (failed_rows bench_day [0, 1, 2])
       @ exercise_lines (failed_rows bench_day [0, 1, 2])
       @ progression_lines ''3'' ''squat''
       @ progression_lines ''3'' ''bench''
       @ progression_lines ''3'' ''deadlift''
       @ notes_heading ?lifts
       @ [''\<newline>For bench:'',
          ''- Wrist Mobility: Use wrist wraps'',
          ''- Bench Setup: Set the shoulder blades'',
          ''\<newline>For deadlift:'',
          ''- Wrist Mobility: Use wrist wraps'']\<rparr>"
    unfolding rows tips by simp
  with h1 h3 show ?thesis
    by (simp only: simp_thms)
qed

lemma lift_areas_initial:
  "x \<in> lift_areas [lift] \<Longrightarrow> x \<noteq> [] \<and> hd x \<in> set ''AHTSLBWD''"
  by (auto simp: lift_areas_def LIFT_SPECIFIC_TESTS_def split: if_splits)

lemma fundamental_initial:
  "x \<in> set FUNDAMENTAL_TESTS \<Longrightarrow> x \<noteq> [] \<and> hd x \<in> set ''GMC''"
  by (auto simp: FUNDAMENTAL_TESTS_def)

lemma lift_specific_not_fundamental:
  "cell_in area (lift_areas [lift]) \<Longrightarrow> \<not> cell_in area (set FUNDAMENTAL_TESTS)"
proof (cases area)
  case None
  then show ?thesis by simp
next
  case (Some x)
  assume "cell_in area (lift_areas [lift])"
  with Some have "hd x \<in> set ''AHTSLBWD''"
    using lift_areas_initial [of x lift] by simp
  moreover have "hd x \<in> set ''GMC''" if "x \<in> set FUNDAMENTAL_TESTS"
    using that fundamental_initial [of x] by simp
  ultimately show ?thesis
    using Some by auto
qed

lemma tip_text_differs:
  assumes "cell_in a (set FUNDAMENTAL_TESTS)" and "cell_in b (lift_areas [lift])"
  shows "tip_text a u \<noteq> tip_text b v"
proof -
  from assms obtain x y where xy: "a = Some x" "b = Some y"
    by (cases a; cases b) auto
  with assms have x: "x \<noteq> []" "hd x \<in> set ''GMC''" and y: "y \<noteq> []" "hd y \<in> set ''AHTSLBWD''"
    using fundamental_initial [of x] lift_areas_initial [of y lift] by simp_all
  have "hd (x @ '': '' @ str_cell u) \<noteq> hd (y @ '': '' @ str_cell v)"
    using x y by auto
  then show ?thesis
    by (auto simp: tip_text_def xy)
qed

lemma in_lift_tips:
  "line \<in> set (lift_tips rows lift) \<longleftrightarrow>
   (\<exists>r \<in> set rows. notna (Solution_4 r) \<and> cell_in (Area r) (lift_areas [lift])
      \<and> line = tip_text (Area r) (Solution_4 r))"
  by (auto simp: lift_tips_def)

lemma fundamental_tip_not_attributed:
  assumes "cell_in a (set FUNDAMENTAL_TESTS)"
  shows "tip_text a u \<notin> set (lift_tips rows lift)"
proof (induction rows)
  case Nil
  then show ?case by (simp add: lift_tips_Nil)
next
  case (Cons r rows)
  have "tip_text a u \<noteq> tip_text (Area r) (Solution_4 r)"
    if "cell_in (Area r) (lift_areas [lift])"
    using assms that by (rule tip_text_differs)
  with Cons show ?case
    by (auto simp: lift_tips_Cons)
qed

lemma in_lift_notes:
  "line \<in> set (lift_notes rows lift) \<Longrightarrow>
   line = ''\<newline>For '' @ lift @ '':'' \<or> line \<in> set (lift_tips rows lift)"
  by (auto simp: lift_notes_def split: if_splits)

lemma lift_tips_without_fundamental:
  "lift_tips (filter (\<lambda>r. \<not> cell_in (Area r) (set FUNDAMENTAL_TESTS)) rows) lift =
   lift_tips rows lift"
  by (induction rows) (auto simp: lift_tips_Nil lift_tips_Cons dest: lift_specific_not_fundamental)

lemma lift_tips_with_advice:
  "lift_tips (filter (\<lambda>r. Solution_4 r \<noteq> None) rows) lift = lift_tips rows lift"
proof (induction rows)
  case Nil
  then show ?case by simp
next
  case (Cons r rows)
  then show ?case
    by (cases "Solution_4 r") (simp_all add: lift_tips_Cons)
qed

text \<open>
  Claim C9. The tip of a failed row whose area is fundamental is not among the lines of
  the implementation notes: no lift lists a fundamental area, so the notes are the same
  as if those rows had not failed. With an empty selection the notes hold no tip, whatever
  failed. The list of top issues names the areas of the failed rows, and is their ranking
  when these areas are texts.
\<close>

theorem fundamental_tips_never_printed:
  assumes "failed_indices \<noteq> []"
    and "\<forall>idx \<in> set failed_indices. idx < length assessment_data"
    and "distinct selected_lifts"
    and "set selected_lifts \<subseteq> {''squat'', ''bench'', ''deadlift''}"
    and "rows = failed_rows assessment_data failed_indices"
    and "tips = concat (map (lift_notes rows) selected_lifts)"
  shows "\<exists>ranked.
     set ranked = set (map Area rows)
   \<and> ((\<forall>r \<in> set rows. notna (Area r)) \<longrightarrow> ranked = ranked_areas (map Area rows))
   \<and> generate_warmup_plan assessment_data failed_indices selected_lifts c =
     Inr (c\<lparr>stdout := stdout c
       @ plan_opening
       @ issue_list ranked
       @ exercise_lines rows
       @ concat (map (progression_lines ''3'') selected_lifts)
       @ notes_heading selected_lifts
       @ tips\<rparr>)
   \<and> (\<forall>r \<in> set rows. cell_in (Area r) (set FUNDAMENTAL_TESTS) \<longrightarrow>
         ''- '' @ str_cell (Area r) @ '': '' @ str_cell (Solution_4 r) \<notin> set tips)
   \<and> tips = concat (map (lift_notes
         (filter (\<lambda>r. \<not> cell_in (Area r) (set FUNDAMENTAL_TESTS)) rows)) selected_lifts)
   \<and> (selected_lifts = [] \<longrightarrow> tips = [])"
    (is "\<exists>ranked. ?plan ranked")
proof -
  have plan: "generate_warmup_plan assessment_data failed_indices selected_lifts c =
     Inr (c\<lparr>stdout := stdout c
       @ plan_opening
       @ issue_list (ranked_areas (map Area rows))
       @ exercise_lines rows
       @ concat (map (progression_lines ''3'') selected_lifts)
       @ notes_heading selected_lifts
       @ tips\<rparr>)"
    using customized_plan_valid [OF assms(1-4), of c] by (simp only: assms(5,6))
  have absent: "tip_text (Area r) (Solution_4 r) \<notin> set tips"
    if "cell_in (Area r) (set FUNDAMENTAL_TESTS)" for r :: row
  proof
    assume "tip_text (Area r) (Solution_4 r) \<in> set tips"
    then obtain lift where "tip_text (Area r) (Solution_4 r) \<in> set (lift_notes rows lift)"
      by (auto simp: assms(6))
    then have "tip_text (Area r) (Solution_4 r) = ''\<newline>For '' @ lift @ '':''
        \<or> tip_text (Area r) (Solution_4 r) \<in> set (lift_tips rows lift)"
      by (rule in_lift_notes)
    then show False
    proof
      assume "tip_text (Area r) (Solution_4 r) = ''\<newline>For '' @ lift @ '':''"
      then show False by (simp add: tip_text_def)
    next
      assume "tip_text (Area r) (Solution_4 r) \<in> set (lift_tips rows lift)"
      with that show False
        by (simp add: fundamental_tip_not_attributed)
    qed
  qed
  have same: "tips = concat (map (lift_notes
         (filter (\<lambda>r. \<not> cell_in (Area r) (set FUNDAMENTAL_TESTS)) rows)) selected_lifts)"
    by (simp only: assms(6) lift_notes_def [abs_def] lift_tips_without_fundamental)
  have none: "selected_lifts = [] \<longrightarrow> tips = []"
    by (simp add: assms(6))
  from absent have "\<forall>r \<in> set rows. cell_in (Area r) (set FUNDAMENTAL_TESTS) \<longrightarrow>
         ''- '' @ str_cell (Area r) @ '': '' @ str_cell (Solution_4 r) \<notin> set tips"
    unfolding tip_text_def by blast
  with plan same none have main:
    "generate_warmup_plan assessment_data failed_indices selected_lifts c =
       Inr (c\<lparr>stdout := stdout c
         @ plan_opening
         @ issue_list (ranked_areas (map Area rows))
         @ exercise_lines rows
         @ concat (map (progression_lines ''3'') selected_lifts)
         @ notes_heading selected_lifts
         @ tips\<rparr>)
     \<and> (\<forall>r \<in> set rows. cell_in (Area r) (set FUNDAMENTAL_TESTS) \<longrightarrow>
           ''- '' @ str_cell (Area r) @ '': '' @ str_cell (Solution_4 r) \<notin> set tips)
     \<and> tips = concat (map (lift_notes
           (filter (\<lambda>r. \<not> cell_in (Area r) (set FUNDAMENTAL_TESTS)) rows)) selected_lifts)
     \<and> (selected_lifts = [] \<longrightarrow> tips = [])"
    by (intro conjI)
  have ranked: "?plan (ranked_areas (map Area rows))"
    by (rule conjI [OF ranked_areas_set conjI [OF impI [OF refl] main]])
  show ?thesis
    by (rule exI [of "?plan" "ranked_areas (map Area rows)", OF ranked])
qed

theorem fundamental_tips_never_printed_witness:
  "[0, 1] \<noteq> ([] :: nat list)
   \<and> distinct [''squat'']
   \<and> cell_in (Area (sore_squatter ! 0)) (set FUNDAMENTAL_TESTS)
   \<and> notna (Solution_4 (sore_squatter ! 0))
   \<and> generate_warmup_plan sore_squatter [0, 1] [''squat''] \<lparr>stdin = [], stdout = []\<rparr> =
     Inr \<lparr>stdin = [],
          stdout = plan_opening
       @ issue_lines (failed_rows sore_squatter [0, 1])
       @ exercise_lines (failed_rows sore_squatter [0, 1])
       @ progression_lines ''3'' ''squat''
       @ notes_heading [''squat'']
       @ [''\<newline>For squat:'', ''- Squat Pattern: Pause at the bottom'']\<rparr>
   \<and> ''- General Pain Assessment: Rest''
       \<notin> set (concat (map (lift_notes (failed_rows sore_squatter [0, 1])) [''squat'']))
   \<and> generate_warmup_plan sore_squatter [0, 1] [] \<lparr>stdin = [], stdout = []\<rparr> =
     Inr \<lparr>stdin = [],
          stdout = plan_opening
       @ issue_lines (failed_rows sore_squatter [0, 1])
       @ exercise_lines (failed_rows sore_squatter [0, 1])
       @ notes_heading []\<rparr>"
proof -
  let ?rows = "failed_rows sore_squatter [0, 1]"
  let ?c = "\<lparr>stdin = [], stdout = []\<rparr>"
  have h1: "[0, 1] \<noteq> ([] :: nat list)" by simp
  have h2: "\<forall>idx \<in> set [0, 1]. idx < length sore_squatter"
    by (simp add: sore_squatter_def)
  have h3: "distinct [''squat'']" by simp
  have h4: "set [''squat''] \<subseteq> {''squat'', ''bench'', ''deadlift''}" by simp
  have e3: "distinct ([] :: string list)" by simp
  have e4: "set ([] :: string list) \<subseteq> {''squat'', ''bench'', ''deadlift''}" by simp
  have rows: "?rows = sore_squatter"
    by (simp add: failed_rows_def sore_squatter_def)
  have fund: "cell_in (Area (sore_squatter ! 0)) (set FUNDAMENTAL_TESTS)"
    "notna (Solution_4 (sore_squatter ! 0))"
    by (simp_all add: sore_squatter_def example_row_def FUNDAMENTAL_TESTS_def)
  have member: "sore_squatter ! 0 \<in> set ?rows"
    unfolding rows by (simp add: sore_squatter_def)
  have line: "''- '' @ str_cell (Area (sore_squatter ! 0)) @ '': ''
        @ str_cell (Solution_4 (sore_squatter ! 0)) = ''- General Pain Assessment: Rest''"
    by (simp add: sore_squatter_def example_row_def)
  have printed: "concat (map (lift_notes ?rows) [''squat'']) =
      [''\<newline>For squat:'', ''- Squat Pattern: Pause at the bottom'']"
    by (simp only: rows)
       (simp add: sore_squatter_def lift_notes_def lift_tips_Cons lift_tips_Nil tip_text_def
          lift_areas_def LIFT_SPECIFIC_TESTS_def example_row_def)
  have texts: "\<forall>r \<in> set ?rows. notna (Area r)"
    by (simp add: failed_rows_def sore_squatter_def example_row_def)
  note squat = when_areas_are_texts
    [OF fundamental_tips_never_printed [OF h1 h2 h3 h4 refl refl, of ?c] texts,
     folded issue_lines_def]
  note none = when_areas_are_texts
    [OF fundamental_tips_never_printed [OF h1 h2 e3 e4 refl refl, of ?c] texts,
     folded issue_lines_def]
  from squat have "generate_warmup_plan sore_squatter [0, 1] [''squat''] ?c =
     Inr \<lparr>stdin = [],
          stdout = plan_opening
       @ issue_lines ?rows
       @ exercise_lines ?rows
       @ progression_lines ''3'' ''squat''
       @ notes_heading [''squat'']
       @ [''\<newline>For squat:'', ''- Squat Pattern: Pause at the bottom'']\<rparr>"
    unfolding printed by simp
  moreover from squat member fund(1)
  have "''- '' @ str_cell (Area (sore_squatter ! 0)) @ '': ''
        @ str_cell (Solution_4 (sore_squatter ! 0))
       \<notin> set (concat (map (lift_notes ?rows) [''squat'']))"
    by blast
  then have "''- General Pain Assessment: Rest''
       \<notin> set (concat (map (lift_notes ?rows) [''squat'']))"
    unfolding line .
  moreover from none have "generate_warmup_plan sore_squatter [0, 1] [] ?c =
     Inr \<lparr>stdin = [],
          stdout = plan_opening
       @ issue_lines ?rows
       @ exercise_lines ?rows
       @ notes_heading []\<rparr>"
    by simp
  ultimately show ?thesis
    using h1 h3 fund by (simp only: simp_thms)
qed

text \<open>
  Claim C10. A block of corrective exercises prints the first three solutions of the row
  with no check that they are there: a missing one is printed as \<^verbatim>\<open>nan\<close>. The fourth
  solution is used only where it is there: the notes are those of the failed rows that
  have one. The list of top issues names the areas of the failed rows, and is their
  ranking when these areas are texts.
\<close>

theorem solutions_printed_as_they_are:
  assumes "failed_indices \<noteq> []"
    and "\<forall>idx \<in> set failed_indices. idx < length assessment_data"
    and "distinct selected_lifts"
    and "set selected_lifts \<subseteq> {''squat'', ''bench'', ''deadlift''}"
    and "rows = failed_rows assessment_data failed_indices"
  shows "\<exists>ranked.
     set ranked = set (map Area rows)
   \<and> ((\<forall>r \<in> set rows. notna (Area r)) \<longrightarrow> ranked = ranked_areas (map Area rows))
   \<and> generate_warmup_plan assessment_data failed_indices selected_lifts c =
     Inr (c\<lparr>stdout := stdout c
       @ plan_opening
       @ issue_list ranked
       @ [''\<newline>Perform these corrective exercises:'']
       @ concat (map (\<lambda>r.
           [''\<newline>-- '' @ str_cell (Area r) @ '': '' @ str_cell (Test r) @ '' --'',
            ''  1. '' @ (case Solution_1 r of None \<Rightarrow> ''nan'' | Some solution \<Rightarrow> solution),
            ''  2. '' @ (case Solution_2 r of None \<Rightarrow> ''nan'' | Some solution \<Rightarrow> solution),
            ''  3. '' @ (case Solution_3 r of None \<Rightarrow> ''nan'' | Some solution \<Rightarrow> solution)])
           (take 5 rows))
       @ concat (map (progression_lines ''3'') selected_lifts)
       @ notes_heading selected_lifts
       @ concat (map (lift_notes (filter (\<lambda>r. Solution_4 r \<noteq> None) rows)) selected_lifts)\<rparr>)"
    (is "\<exists>ranked. ?plan ranked")
proof -
  have str: "str_cell x = (case x of None \<Rightarrow> ''nan'' | Some solution \<Rightarrow> solution)" for x
    by (cases x) simp_all
  have "exercise_lines rows =
     [''\<newline>Perform these corrective exercises:'']
       @ concat (map (\<lambda>r.
           [''\<newline>-- '' @ str_cell (Area r) @ '': '' @ str_cell (Test r) @ '' --'',
            ''  1. '' @ (case Solution_1 r of None \<Rightarrow> ''nan'' | Some solution \<Rightarrow> solution),
            ''  2. '' @ (case Solution_2 r of None \<Rightarrow> ''nan'' | Some solution \<Rightarrow> solution),
            ''  3. '' @ (case Solution_3 r of None \<Rightarrow> ''nan'' | Some solution \<Rightarrow> solution)])
           (take 5 rows))"
    unfolding exercise_lines_def exercise_block_def [abs_def]
      str [of "Solution_1 _"] str [of "Solution_2 _"] str [of "Solution_3 _"]
    by simp
  moreover have "lift_notes (filter (\<lambda>r. Solution_4 r \<noteq> None) rows) = lift_notes rows"
    by (simp only: lift_notes_def [abs_def] lift_tips_with_advice)
  ultimately have main:
    "generate_warmup_plan assessment_data failed_indices selected_lifts c =
       Inr (c\<lparr>stdout := stdout c
         @ plan_opening
         @ issue_list (ranked_areas (map Area rows))
         @ [''\<newline>Perform these corrective exercises:'']
         @ concat (map (\<lambda>r.
             [''\<newline>-- '' @ str_cell (Area r) @ '': '' @ str_cell (Test r) @ '' --'',
              ''  1. '' @ (case Solution_1 r of None \<Rightarrow> ''nan'' | Some solution \<Rightarrow> solution),
              ''  2. '' @ (case Solution_2 r of None \<Rightarrow> ''nan'' | Some solution \<Rightarrow> solution),
              ''  3. '' @ (case Solution_3 r of None \<Rightarrow> ''nan'' | Some solution \<Rightarrow> solution)])
             (take 5 rows))
         @ concat (map (progression_lines ''3'') selected_lifts)
         @ notes_heading selected_lifts
         @ concat (map (lift_notes (filter (\<lambda>r. Solution_4 r \<noteq> None) rows)) selected_lifts)\<rparr>)"
    using customized_plan_valid [OF assms(1-4), of c]
    by (simp only: assms(5) append_assoc)
  have ranked: "?plan (ranked_areas (map Area rows))"
    by (rule conjI [OF ranked_areas_set conjI [OF impI [OF refl] main]])
  show ?thesis
    by (rule exI [of "?plan" "ranked_areas (map Area rows)", OF ranked])
qed

theorem solutions_printed_as_they_are_witness:
  "[0] \<noteq> ([] :: nat list)
   \<and> distinct [''squat'']
   \<and> Solution_2 (hips_and_lats ! 0) = None
   \<and> Solution_4 (hips_and_lats ! 0) = None
   \<and> generate_warmup_plan hips_and_lats [0] [''squat''] \<lparr>stdin = [], stdout = []\<rparr> =
     Inr \<lparr>stdin = [],
          stdout = plan_opening
       @ issue_lines (failed_rows hips_and_lats [0])
       @ [''\<newline>Perform these corrective exercises:'',
          ''\<newline>-- Hip Flexion: Lunge --'', ''  1. one'', ''  2. nan'', ''  3. three'']
       @ progression_lines ''3'' ''squat''
       @ notes_heading [''squat'']\<rparr>"
proof -
  let ?c = "\<lparr>stdin = [], stdout = []\<rparr>"
  have h1: "[0] \<noteq> ([] :: nat list)" by simp
  have h2: "\<forall>idx \<in> set [0]. idx < length hips_and_lats"
    by (simp add: hips_and_lats_def)
  have h3: "distinct [''squat'']" by simp
  have h4: "set [''squat''] \<subseteq> {''squat'', ''bench'', ''deadlift''}" by simp
  have missing: "Solution_2 (hips_and_lats ! 0) = None" "Solution_4 (hips_and_lats ! 0) = None"
    by (simp_all add: hips_and_lats_def example_row_def)
  have rows: "failed_rows hips_and_lats [0] = [example_row ''Hip Flexion'' ''Lunge'' None]"
    by (simp add: failed_rows_def hips_and_lats_def)
  have advised: "filter (\<lambda>r. Solution_4 r \<noteq> None) [example_row ''Hip Flexion'' ''Lunge'' None] = []"
    by (simp add: example_row_def)
  have blocks: "concat (map (\<lambda>r.
           [''\<newline>-- '' @ str_cell (Area r) @ '': '' @ str_cell (Test r) @ '' --'',
            ''  1. '' @ (case Solution_1 r of None \<Rightarrow> ''nan'' | Some solution \<Rightarrow> solution),
            ''  2. '' @ (case Solution_2 r of None \<Rightarrow> ''nan'' | Some solution \<Rightarrow> solution),
            ''  3. '' @ (case Solution_3 r of None \<Rightarrow> ''nan'' | Some solution \<Rightarrow> solution)])
           (take 5 [example_row ''Hip Flexion'' ''Lunge'' None])) =
         [''\<newline>-- Hip Flexion: Lunge --'', ''  1. one'', ''  2. nan'', ''  3. three'']"
    by (simp add: example_row_def)
  have texts: "\<forall>r \<in> set (failed_rows hips_and_lats [0]). notna (Area r)"
    by (simp add: failed_rows_def hips_and_lats_def example_row_def)
  from when_areas_are_texts
    [OF solutions_printed_as_they_are [OF h1 h2 h3 h4 refl, of ?c] texts,
     folded issue_lines_def]
  have "generate_warmup_plan hips_and_lats [0] [''squat''] ?c =
     Inr \<lparr>stdin = [],
          stdout = plan_opening
       @ issue_lines (failed_rows hips_and_lats [0])
       @ [''\<newline>Perform these corrective exercises:'',
          ''\<newline>-- Hip Flexion: Lunge --'', ''  1. one'', ''  2. nan'', ''  3. three'']
       @ progression_lines ''3'' ''squat''
       @ notes_heading [''squat'']\<rparr>"
    unfolding rows advised blocks by (simp add: lift_notes_def lift_tips_Nil)
  with h1 h3 missing show ?thesis
    by (simp only: simp_thms)
qed

end
